theory Spec2Isabelle
  imports Main "HOL-Library.AList" "HOL-Library.Sublist"
begin

section \<open>JavaScript values as the XML parser delivers them\<close>

text \<open>
  \<^verbatim>\<open>fast-xml-parser\<close> (configured with \<^verbatim>\<open>ignoreAttributes: false, attributeNamePrefix: ''\<close>)
  turns a document into plain JavaScript values: an element is an object whose properties
  are its attributes and child elements, a repeated element is an array, text is a string
  or a number. Numbers are kept as integers (row and column indices and EMU lengths are
  integers). Two objects used as keys of a \<^verbatim>\<open>Map\<close> are compared by structure here, by
  identity in JavaScript; attribute values, the keys the code really uses, are strings.
\<close>

datatype xval =
    XUndef
  | XBool bool
  | XNum int
  | XStr string
  | XArr "xval list"
  | XObj "(string \<times> xval) list"

text \<open>JavaScript truthiness, as tested by \<^verbatim>\<open>if (x)\<close>, \<^verbatim>\<open>!x\<close>, \<^verbatim>\<open>a && b\<close> and \<^verbatim>\<open>a || b\<close>.\<close>

fun truthy :: "xval \<Rightarrow> bool" where
  "truthy XUndef = False"
| "truthy (XBool b) = b"
| "truthy (XNum n) = (n \<noteq> 0)"
| "truthy (XStr s) = (s \<noteq> [])"
| "truthy (XArr xs) = True"
| "truthy (XObj ps) = True"

text \<open>
  Property read \<^verbatim>\<open>x?.[k]\<close>: the value of an object's property, \<^verbatim>\<open>undefined\<close> when the
  property is missing, when \<open>x\<close> is \<^verbatim>\<open>undefined\<close> and when \<open>x\<close> is a primitive (none of the
  property names the code reads is a method of strings, numbers or arrays). Every plain
  read \<^verbatim>\<open>x[k]\<close> of the source is made on a value already known to be truthy, so it never
  throws and is the same function.
\<close>

fun getp :: "xval \<Rightarrow> string \<Rightarrow> xval" where
  "getp (XObj ps) k = (case map_of ps k of Some v \<Rightarrow> v | None \<Rightarrow> XUndef)"
| "getp _ k = XUndef"

text \<open>\<^verbatim>\<open>a || b\<close> and \<^verbatim>\<open>a ?? b\<close> on values.\<close>

definition js_or :: "xval \<Rightarrow> xval \<Rightarrow> xval" where
  "js_or a b = (if truthy a then a else b)"

definition js_nullish :: "xval \<Rightarrow> xval \<Rightarrow> xval" where
  "js_nullish a b = (if a = XUndef then b else a)"

text \<open>\<^verbatim>\<open>Array.isArray(x) ? x : [x]\<close>.\<close>

definition as_list :: "xval \<Rightarrow> xval list" where
  "as_list x = (case x of XArr xs \<Rightarrow> xs | _ \<Rightarrow> [x])"

text \<open>The outcome of \<^verbatim>\<open>parser.parse(text)\<close>: \<open>None\<close> when the parser throws.\<close>

type_synonym xml_parser = "string \<Rightarrow> xval option"

subsection \<open>String methods\<close>

text \<open>\<^verbatim>\<open>s.startsWith(p)\<close> is \<^term>\<open>prefix p s\<close>; \<^verbatim>\<open>s.includes(p)\<close>:\<close>

fun str_includes :: "string \<Rightarrow> string \<Rightarrow> bool" where
  "str_includes [] p = (p = [])"
| "str_includes (c # cs) p = (prefix p (c # cs) \<or> str_includes cs p)"

text \<open>\<^verbatim>\<open>s.replace(/^p/, '')\<close> for a literal \<open>p\<close>.\<close>

definition strip_prefix :: "string \<Rightarrow> string \<Rightarrow> string" where
  "strip_prefix p s = (if prefix p s then drop (length p) s else s)"

text \<open>\<^verbatim>\<open>s.replace(/^\/+/, '')\<close>.\<close>

definition strip_slashes :: "string \<Rightarrow> string" where
  "strip_slashes s = dropWhile (\<lambda>c. c = CHR ''/'') s"

text \<open>\<^verbatim>\<open>s.trim()\<close>, on the ASCII white space.\<close>

definition is_space :: "char \<Rightarrow> bool" where
  "is_space c = (c \<in> set [CHR '' '', CHR 0x09, CHR 0x0A, CHR 0x0B, CHR 0x0C, CHR 0x0D])"

definition trim :: "string \<Rightarrow> string" where
  "trim s = rev (dropWhile is_space (rev (dropWhile is_space s)))"

text \<open>\<^verbatim>\<open>s.toLowerCase()\<close>, on the ASCII letters.\<close>

definition lower_char :: "char \<Rightarrow> char" where
  "lower_char c =
     (let n = (of_char c :: nat) in if 65 \<le> n \<and> n \<le> 90 then char_of (n + 32) else c)"

definition toLowerCase :: "string \<Rightarrow> string" where
  "toLowerCase s = map lower_char s"

text \<open>Decimal rendering of a number, \<^verbatim>\<open>String(n)\<close> and \<^verbatim>\<open>'' + n\<close>.\<close>

fun digits_of :: "nat \<Rightarrow> string" where
  "digits_of n =
     (if n < 10 then [char_of (48 + n)] else digits_of (n div 10) @ [char_of (48 + n mod 10)])"

declare digits_of.simps [simp del]

definition show_int :: "int \<Rightarrow> string" where
  "show_int i = (if i < 0 then CHR ''-'' # digits_of (nat (- i)) else digits_of (nat i))"


text \<open>\<^verbatim>\<open>String(x)\<close> and the conversion a template literal applies.\<close>

fun join_comma :: "string list \<Rightarrow> string" where
  "join_comma [] = []"
| "join_comma [s] = s"
| "join_comma (s # t # ss) = s @ '','' @ join_comma (t # ss)"

fun js_String :: "xval \<Rightarrow> string" where
  "js_String XUndef = ''undefined''"
| "js_String (XBool b) = (if b then ''true'' else ''false'')"
| "js_String (XNum n) = show_int n"
| "js_String (XStr s) = s"
| "js_String (XArr xs) =
     join_comma (map (\<lambda>x. if x = XUndef then [] else js_String x) xs)"
| "js_String (XObj ps) = ''[object Object]''"

text \<open>\<^verbatim>\<open>s.replace(p, r)\<close> for a string pattern: the first occurrence only.\<close>

fun replace_first :: "string \<Rightarrow> string \<Rightarrow> string \<Rightarrow> string" where
  "replace_first p r [] = (if p = [] then r else [])"
| "replace_first p r (c # cs) =
     (if prefix p (c # cs) then r @ drop (length p) (c # cs) else c # replace_first p r cs)"

text \<open>\<^verbatim>\<open>s.split(sep).pop()\<close> for a one-character separator: what follows the last
  separator, the whole string when there is none.\<close>

definition last_segment :: "char \<Rightarrow> string \<Rightarrow> string" where
  "last_segment sep s = rev (takeWhile (\<lambda>c. c \<noteq> sep) (rev s))"

text \<open>A method call on a value that has no such method throws a \<^verbatim>\<open>TypeError\<close>.\<close>

datatype error = TypeError

section \<open>RelationshipParser\<close>

record RelationshipInfo =
  rel_id :: xval
  rel_type :: xval
  rel_target :: xval
  rel_targetMode :: xval

text \<open>A JavaScript \<^verbatim>\<open>Map\<close>: keys in insertion order, \<^verbatim>\<open>set\<close> is \<^const>\<open>AList.update\<close>
  (replace in place, else append), \<^verbatim>\<open>get\<close> is \<^const>\<open>map_of\<close>.\<close>

type_synonym relmap = "(xval \<times> RelationshipInfo) list"

text \<open>The test \<^verbatim>\<open>id && type && target\<close> on one \<^verbatim>\<open>Relationship\<close> element.\<close>

definition rel_complete :: "xval \<Rightarrow> bool" where
  "rel_complete rel =
     (truthy (getp rel ''Id'') \<and> truthy (getp rel ''Type'') \<and> truthy (getp rel ''Target''))"

definition rel_record :: "xval \<Rightarrow> RelationshipInfo" where
  "rel_record rel =
     \<lparr>rel_id = getp rel ''Id'', rel_type = getp rel ''Type'',
      rel_target = getp rel ''Target'', rel_targetMode = getp rel ''TargetMode''\<rparr>"

text \<open>The loop \<^verbatim>\<open>for (const rel of list)\<close> of \<^verbatim>\<open>parseRelationships\<close>.\<close>

fun addRelationships :: "xval list \<Rightarrow> relmap \<Rightarrow> relmap" where
  "addRelationships [] relationships = relationships"
| "addRelationships (rel # rest) relationships =
     addRelationships rest
       (if rel_complete rel
        then AList.update (getp rel ''Id'') (rel_record rel) relationships
        else relationships)"

text \<open>The list of \<^verbatim>\<open>Relationship\<close> elements of a parsed document:
  \<^verbatim>\<open>doc?.Relationships?.Relationship\<close>, none when that is falsy.\<close>

definition relationship_elements :: "xval \<Rightarrow> xval list" where
  "relationship_elements doc =
     (let rels = getp (getp doc ''Relationships'') ''Relationship''
      in if \<not> truthy rels then [] else as_list rels)"

text \<open>\<^verbatim>\<open>parseRelationships\<close>: the \<^verbatim>\<open>catch\<close> of the source returns the map built so far,
  and only the parser can throw, before anything is stored.\<close>

definition parseRelationships :: "xml_parser \<Rightarrow> string \<Rightarrow> relmap" where
  "parseRelationships parse relsXml =
     (case parse relsXml of
        None \<Rightarrow> []
      | Some doc \<Rightarrow> addRelationships (relationship_elements doc) [])"

datatype folder = Worksheets | Drawings

definition folder_name :: "folder \<Rightarrow> string" where
  "folder_name fo = (case fo of Worksheets \<Rightarrow> ''worksheets'' | Drawings \<Rightarrow> ''drawings'')"

definition normalizeTargetPath :: "folder \<Rightarrow> string \<Rightarrow> string" where
  "normalizeTargetPath fromFolder target =
     (if fromFolder = Worksheets then
        (if prefix ''../'' target then strip_prefix ''../'' target
         else if prefix ''/'' target then strip_slashes target
         else if \<not> prefix ''worksheets/'' target \<and> \<not> prefix ''drawings/'' target
                 \<and> \<not> prefix ''media/'' target
         then ''worksheets/'' @ target
         else target)
      else
        (if prefix ''../'' target then strip_prefix ''../'' target
         else if prefix ''/'' target then strip_slashes target
         else if \<not> prefix ''drawings/'' target \<and> \<not> prefix ''media/'' target
         then ''drawings/'' @ target
         else target))"

text \<open>The folder names a calling folder leaves alone at the start of a target.\<close>

definition recognised :: "folder \<Rightarrow> string list" where
  "recognised fo =
     (case fo of
        Worksheets \<Rightarrow> [''worksheets/'', ''drawings/'', ''media/'']
      | Drawings \<Rightarrow> [''drawings/'', ''media/''])"


text \<open>\<^verbatim>\<open>r.type.includes(p)\<close>: a substring test on a string, a membership test on an array,
  a \<^verbatim>\<open>TypeError\<close> on anything else.\<close>

fun type_includes :: "xval \<Rightarrow> string \<Rightarrow> error + bool" where
  "type_includes (XStr s) p = Inr (str_includes s p)"
| "type_includes (XArr xs) p = Inr (XStr p \<in> set xs)"
| "type_includes _ p = Inl TypeError"

text \<open>\<^verbatim>\<open>findDrawingRelationship\<close>: \<^verbatim>\<open>Array.from(relationships.values()).find(...) || null\<close>.\<close>

fun findDrawingRelationship :: "relmap \<Rightarrow> error + RelationshipInfo option" where
  "findDrawingRelationship [] = Inr None"
| "findDrawingRelationship ((k, r) # rest) =
     (case type_includes (rel_type r) ''/relationships/drawing'' of
        Inl e \<Rightarrow> Inl e
      | Inr found \<Rightarrow> if found then Inr (Some r) else findDrawingRelationship rest)"

text \<open>\<^verbatim>\<open>rel.target.replace(/^\.\//, 'worksheets/')\<close>.\<close>

definition sheet_target :: "xval \<Rightarrow> error + string" where
  "sheet_target target =
     (case target of
        XStr s \<Rightarrow> Inr (if prefix ''./'' s then ''worksheets/'' @ drop 2 s else s)
      | _ \<Rightarrow> Inl TypeError)"

text \<open>The loop of \<^verbatim>\<open>mapSheetNamesToPaths\<close>; the \<^verbatim>\<open>catch\<close> around it returns the map
  built so far.\<close>

fun addSheets :: "relmap \<Rightarrow> xval list \<Rightarrow> (xval \<times> string) list \<Rightarrow> (xval \<times> string) list" where
  "addSheets rels [] m = m"
| "addSheets rels (sheet # rest) m =
     (let name = getp sheet ''name'';
          rid = js_or (getp sheet ''r:id'') (getp sheet ''id'')
      in if \<not> truthy name \<or> \<not> truthy rid then addSheets rels rest m
         else case map_of rels rid of
                None \<Rightarrow> addSheets rels rest m
              | Some rel \<Rightarrow>
                  (case sheet_target (rel_target rel) of
                     Inl e \<Rightarrow> m
                   | Inr path \<Rightarrow> addSheets rels rest (AList.update name path m)))"

definition mapSheetNamesToPaths :: "xml_parser \<Rightarrow> string \<Rightarrow> string \<Rightarrow> (xval \<times> string) list" where
  "mapSheetNamesToPaths parse workbookXml workbookRelsXml =
     (case parse workbookXml of
        None \<Rightarrow> []
      | Some workbookDoc \<Rightarrow>
          (let rels = parseRelationships parse workbookRelsXml;
               sheets = js_or (getp (getp (getp workbookDoc ''workbook'') ''sheets'') ''sheet'')
                         (js_or (getp (getp (getp workbookDoc ''x:workbook'') ''sheets'') ''sheet'')
                            (XArr []))
           in addSheets rels (as_list sheets) []))"


section \<open>Cell references of the spreadsheet library\<close>

text \<open>
  \<^verbatim>\<open>XLSX.utils.encode_cell\<close>, \<^verbatim>\<open>decode_cell\<close> and \<^verbatim>\<open>decode_range\<close> belong to the SheetJS
  library the repository imports. \<^verbatim>\<open>encode_cell({r, c})\<close> writes the column \<open>c + 1\<close> in
  letters (bijective base 26, nothing for column \<open>0\<close>) followed by the number \<open>r + 1\<close>;
  \<^verbatim>\<open>decode_cell\<close> reads a string character by character, digits into the row and capital
  letters into the column, skipping everything else, and subtracts one from each. Indices
  are 0-based integers; the model follows the library for \<open>c \<ge> -1\<close>, the values a decoded
  reference can have.
\<close>

fun encode_col :: "nat \<Rightarrow> string" where
  "encode_col n =
     (if n = 0 then [] else encode_col ((n - 1) div 26) @ [char_of (65 + (n - 1) mod 26)])"

declare encode_col.simps [simp del]

definition encode_cell :: "int \<Rightarrow> int \<Rightarrow> string" where
  "encode_cell r c = encode_col (nat (c + 1)) @ show_int (r + 1)"

fun decode_chars :: "string \<Rightarrow> nat \<times> nat \<Rightarrow> nat \<times> nat" where
  "decode_chars [] RC = RC"
| "decode_chars (ch # cs) (R, C) =
     (let cc = (of_char ch :: nat)
      in decode_chars cs
           (if 48 \<le> cc \<and> cc \<le> 57 then (10 * R + (cc - 48), C)
            else if 65 \<le> cc \<and> cc \<le> 90 then (R, 26 * C + (cc - 64))
            else (R, C)))"

text \<open>\<^verbatim>\<open>decode_cell\<close>, giving the pair \<open>(r, c)\<close>.\<close>

definition decode_cell :: "string \<Rightarrow> int \<times> int" where
  "decode_cell cstr = (case decode_chars cstr (0, 0) of (R, C) \<Rightarrow> (int R - 1, int C - 1))"

text \<open>\<^verbatim>\<open>decode_range\<close>: the start and the end cell, split at the first colon.\<close>

definition decode_range :: "string \<Rightarrow> (int \<times> int) \<times> (int \<times> int)" where
  "decode_range rng =
     (if CHR '':'' \<notin> set rng then (decode_cell rng, decode_cell rng)
      else (decode_cell (takeWhile (\<lambda>c. c \<noteq> CHR '':'') rng),
            decode_cell (drop 1 (dropWhile (\<lambda>c. c \<noteq> CHR '':'') rng))))"

section \<open>DrawingParser\<close>

text \<open>\<^verbatim>\<open>Number(x)\<close>, with \<open>None\<close> for \<^verbatim>\<open>NaN\<close>. The numbers of the model are integers: text
  that is no decimal integer reads as \<^verbatim>\<open>NaN\<close>; objects and the arrays the parser delivers
  (two or more elements) convert to \<^verbatim>\<open>NaN\<close> in JavaScript too.\<close>

definition is_digit :: "char \<Rightarrow> bool" where
  "is_digit c = (48 \<le> (of_char c :: nat) \<and> (of_char c :: nat) \<le> 57)"

definition nat_of_digits :: "string \<Rightarrow> nat" where
  "nat_of_digits ds = foldl (\<lambda>n c. 10 * n + (of_char c - 48)) 0 ds"

definition number_of_string :: "string \<Rightarrow> int option" where
  "number_of_string s =
     (let t = trim s
      in case t of
           [] \<Rightarrow> Some 0
         | c # ds \<Rightarrow>
             if (c = CHR ''-'' \<or> c = CHR ''+'') \<and> ds \<noteq> [] \<and> list_all is_digit ds
             then Some (if c = CHR ''-'' then - int (nat_of_digits ds) else int (nat_of_digits ds))
             else if list_all is_digit t then Some (int (nat_of_digits t))
             else None)"

fun js_Number :: "xval \<Rightarrow> int option" where
  "js_Number XUndef = None"
| "js_Number (XBool b) = Some (if b then 1 else 0)"
| "js_Number (XNum n) = Some n"
| "js_Number (XStr s) = number_of_string s"
| "js_Number (XArr xs) = None"
| "js_Number (XObj ps) = None"

record position =
  pos_x :: "int option"
  pos_y :: "int option"
  pos_width :: "int option"
  pos_height :: "int option"

text \<open>\<^verbatim>\<open>FloatingImageInfo\<close>, with the two fields \<^verbatim>\<open>parseDrawingFile\<close> adds to it later:
  \<^verbatim>\<open>__skip\<close> and \<^verbatim>\<open>mediaPath\<close>.\<close>

record FloatingImageInfo =
  fi_id :: string
  fi_description :: xval
  fi_relationshipId :: xval
  fi_position :: position
  fi_cellRef :: string
  fi_rowIndex :: int
  fi_colIndex :: int
  fi_skip :: "string option"
  fi_mediaPath :: "string option"

text \<open>The picture's parts, read the same way by \<^verbatim>\<open>extractImageFromAnchor\<close> and by
  \<^verbatim>\<open>parseCellImagesXml\<close>.\<close>

definition pic_cNvPr :: "xval \<Rightarrow> xval" where
  "pic_cNvPr pic =
     (let nvPicPr = js_or (getp pic ''xdr:nvPicPr'') (getp pic ''nvPicPr'')
      in js_or (getp nvPicPr ''xdr:cNvPr'') (js_or (getp nvPicPr ''cNvPr'') (getp nvPicPr ''cNvPr'')))"

definition pic_relationshipId :: "xval \<Rightarrow> xval" where
  "pic_relationshipId pic =
     (let blipFill = js_or (getp pic ''xdr:blipFill'') (getp pic ''blipFill'');
          aBlip = js_or (getp blipFill ''a:blip'') (getp blipFill ''blip'')
      in js_or (getp aBlip ''r:embed'') (getp aBlip ''embed''))"

definition pic_position :: "xval \<Rightarrow> position" where
  "pic_position pic =
     (let spPr = js_or (getp pic ''xdr:spPr'') (getp pic ''spPr'');
          xfrm = js_or (getp spPr ''a:xfrm'') (getp spPr ''xfrm'');
          off = js_or (getp xfrm ''a:off'') (getp xfrm ''off'');
          ext = js_or (getp xfrm ''a:ext'') (getp xfrm ''ext'')
      in \<lparr>pos_x = js_Number (js_nullish (getp off ''x'') (XNum 0)),
          pos_y = js_Number (js_nullish (getp off ''y'') (XNum 0)),
          pos_width = js_Number (js_nullish (getp ext ''cx'') (XNum 0)),
          pos_height = js_Number (js_nullish (getp ext ''cy'') (XNum 0))\<rparr>)"

text \<open>The three candidates for a floating image's id, each the empty string when absent.\<close>

definition nameCandidate :: "xval \<Rightarrow> string" where
  "nameCandidate cNvPr = (case getp cNvPr ''name'' of XStr s \<Rightarrow> trim s | _ \<Rightarrow> [])"

definition idCandidate :: "xval \<Rightarrow> string" where
  "idCandidate cNvPr =
     (case getp cNvPr ''id'' of
        XStr s \<Rightarrow> trim s
      | XNum n \<Rightarrow> trim (show_int n)
      | _ \<Rightarrow> [])"

definition relCandidate :: "xval \<Rightarrow> string" where
  "relCandidate relationshipId = (case relationshipId of XStr s \<Rightarrow> trim s | _ \<Rightarrow> [])"

text \<open>\<^verbatim>\<open>a || b\<close> on strings.\<close>

definition str_or :: "string \<Rightarrow> string \<Rightarrow> string" where
  "str_or a b = (if a \<noteq> [] then a else b)"

definition extractImageFromAnchor :: "xval \<Rightarrow> FloatingImageInfo option" where
  "extractImageFromAnchor anchor =
     (let pic = js_or (getp anchor ''xdr:pic'') (getp anchor ''pic'')
      in if \<not> truthy pic then None
         else
           let cNvPr = pic_cNvPr pic;
               description = js_nullish (getp cNvPr ''descr'') (XStr []);
               relationshipId = pic_relationshipId pic
           in if \<not> truthy relationshipId then None
              else
                let position = pic_position pic;
                    from = js_or (getp anchor ''xdr:from'') (getp anchor ''from'');
                    colIdx = js_Number (js_nullish (getp from ''xdr:col'') (getp from ''col''));
                    rowIdx = js_Number (js_nullish (getp from ''xdr:row'') (getp from ''row''))
                in case (rowIdx, colIdx) of
                     (Some r, Some c) \<Rightarrow>
                       let cellRef = encode_cell r c;
                           ident = str_or (nameCandidate cNvPr)
                                  (str_or (idCandidate cNvPr)
                                     (str_or (relCandidate relationshipId) (''floating_'' @ cellRef)))
                       in Some \<lparr>fi_id = ident, fi_description = description,
                                fi_relationshipId = relationshipId, fi_position = position,
                                fi_cellRef = cellRef, fi_rowIndex = r, fi_colIndex = c,
                                fi_skip = None, fi_mediaPath = None\<rparr>
                   | _ \<Rightarrow> None)"

text \<open>The unwrapping of \<^verbatim>\<open>mc:AlternateContent\<close> inside an anchor: the picture of the choice
  branch, else of the fallback branch, is stored as the anchor's \<^verbatim>\<open>xdr:pic\<close> and the
  wrapper is deleted.\<close>

definition unwrapAlternateContent :: "xval \<Rightarrow> xval" where
  "unwrapAlternateContent anc =
     (if \<not> truthy anc then anc
      else
        let ac = getp anc ''mc:AlternateContent''
        in if \<not> truthy ac then anc
           else
             let choice = js_or (getp ac ''mc:Choice'') (getp ac ''mcChoice'');
                 fallback = js_or (getp ac ''mc:Fallback'') (getp ac ''mcFallback'');
                 pic = js_or (getp choice ''xdr:pic'')
                         (js_or (getp fallback ''xdr:pic'')
                            (js_or (getp choice ''pic'') (getp fallback ''pic'')))
             in if truthy pic
                then (case anc of
                        XObj ps \<Rightarrow>
                          XObj (AList.delete ''mc:AlternateContent'' (AList.update ''xdr:pic'' pic ps))
                      | _ \<Rightarrow> anc)
                else anc)"

text \<open>The anchors of a drawing: \<^verbatim>\<open>[].concat(two-cell anchors).concat(one-cell anchors)\<close>,
  each unwrapped.\<close>

definition drawing_anchors :: "xval \<Rightarrow> xval list" where
  "drawing_anchors doc =
     (let wsDr = js_or (getp doc ''xdr:wsDr'') (js_or (getp doc ''wsDr'') doc);
          two = js_or (getp wsDr ''xdr:twoCellAnchor'') (js_or (getp wsDr ''twoCellAnchor'') (XArr []));
          one = js_or (getp wsDr ''xdr:oneCellAnchor'') (js_or (getp wsDr ''oneCellAnchor'') (XArr []))
      in map unwrapAlternateContent (as_list two @ as_list one))"

definition parseDrawingXml :: "xml_parser \<Rightarrow> string \<Rightarrow> FloatingImageInfo list" where
  "parseDrawingXml parse drawingXml =
     (case parse drawingXml of
        None \<Rightarrow> []
      | Some doc \<Rightarrow> List.map_filter extractImageFromAnchor (drawing_anchors doc))"


section \<open>ImageExtractor\<close>

text \<open>
  The opened package (\<^verbatim>\<open>JSZip\<close>): \<open>zip_files\<close> gives the content of the part stored under
  a path, \<open>None\<close> where \<^verbatim>\<open>zip.file(path)\<close> is \<^verbatim>\<open>null\<close>. The XML parser and the base64
  encoding of a buffer are the libraries', taken as they come.
\<close>

record package =
  zip_files :: "string \<Rightarrow> string option"
  xml_parse :: xml_parser
  to_base64 :: "string \<Rightarrow> string"

text \<open>\<^verbatim>\<open>await zip.file(path)?.async('text')\<close> followed by the test \<^verbatim>\<open>if (!text)\<close>: the text of
  a part that exists and is not empty.\<close>

definition read_text :: "package \<Rightarrow> string \<Rightarrow> string option" where
  "read_text pkg path =
     (case zip_files pkg path of
        None \<Rightarrow> None
      | Some text \<Rightarrow> if text = [] then None else Some text)"

record ImageExtractionResult =
  ier_id :: string
  ier_description :: string
  ier_base64 :: string
  ier_mimeType :: string
  ier_rawData :: string

record CellImage =
  ci_id :: xval
  ci_description :: xval
  ci_base64 :: string
  ci_mimeType :: string
  ci_position :: position
  ci_relationshipId :: xval

definition getMimeTypeFromPath :: "string \<Rightarrow> string" where
  "getMimeTypeFromPath path =
     (let extension = last_segment CHR ''.'' (toLowerCase path)
      in if extension = ''jpg'' \<or> extension = ''jpeg'' then ''image/jpeg''
         else if extension = ''png'' then ''image/png''
         else if extension = ''gif'' then ''image/gif''
         else if extension = ''bmp'' then ''image/bmp''
         else if extension = ''webp'' then ''image/webp''
         else ''image/jpeg'')"

definition extractImageData :: "package \<Rightarrow> string \<Rightarrow> ImageExtractionResult option" where
  "extractImageData pkg imagePath =
     (case zip_files pkg (''xl/'' @ imagePath) of
        None \<Rightarrow> None
      | Some imageBuffer \<Rightarrow>
          (let mimeType = getMimeTypeFromPath imagePath;
               base64 = to_base64 pkg imageBuffer
           in Some \<lparr>ier_id = [], ier_description = [],
                    ier_base64 = ''data:'' @ mimeType @ '';base64,'' @ base64,
                    ier_mimeType = mimeType, ier_rawData = imageBuffer\<rparr>))"

definition createCellImage ::
  "xval \<Rightarrow> xval \<Rightarrow> xval \<Rightarrow> position \<Rightarrow> ImageExtractionResult \<Rightarrow> CellImage" where
  "createCellImage ident description relationshipId position imageResult =
     \<lparr>ci_id = ident, ci_description = description, ci_base64 = ier_base64 imageResult,
      ci_mimeType = ier_mimeType imageResult, ci_position = position,
      ci_relationshipId = relationshipId\<rparr>"

section \<open>FloatingImageManager\<close>

text \<open>The \<^verbatim>\<open>images\<close> map and the \<^verbatim>\<open>errors\<close> list of the parse result, and the manager's
  table \<^verbatim>\<open>floatingImagesBySheet\<close>: sheet name to cell reference to image ids.\<close>

type_synonym images = "(xval \<times> CellImage) list"

type_synonym floating = "(string \<times> string list) list"

record fstate =
  st_images :: images
  st_errors :: "string list"
  st_bySheet :: "(xval \<times> floating) list"

definition bindImageToCell :: "FloatingImageInfo \<Rightarrow> xval \<Rightarrow> (xval \<times> floating) list \<Rightarrow> (xval \<times> floating) list" where
  "bindImageToCell imageInfo sheetName bySheet =
     (let byCell = (case map_of bySheet sheetName of None \<Rightarrow> [] | Some m \<Rightarrow> m);
          ids = (case map_of byCell (fi_cellRef imageInfo) of None \<Rightarrow> [] | Some l \<Rightarrow> l)
      in AList.update sheetName
           (AList.update (fi_cellRef imageInfo) (ids @ [fi_id imageInfo]) byCell) bySheet)"

definition skip_message :: "string \<Rightarrow> FloatingImageInfo \<Rightarrow> xval \<Rightarrow> string" where
  "skip_message reason imageInfo sheetName =
     ''[skip] reason='' @ reason @ '' id='' @ fi_id imageInfo @ '' sheet='' @ js_String sheetName
       @ '' cell='' @ fi_cellRef imageInfo"

definition push_error :: "string \<Rightarrow> fstate \<Rightarrow> fstate" where
  "push_error msg st = st\<lparr>st_errors := st_errors st @ [msg]\<rparr>"

text \<open>\<^verbatim>\<open>processFloatingImage\<close>. The test \<^verbatim>\<open>if (imageInfo.__skip)\<close> is a truthiness test, as
  is \<^verbatim>\<open>if (!imageInfo.mediaPath)\<close>: an empty string counts as absent.\<close>

definition processFloatingImage :: "package \<Rightarrow> FloatingImageInfo \<Rightarrow> xval \<Rightarrow> fstate \<Rightarrow> fstate" where
  "processFloatingImage pkg imageInfo sheetName st =
     (case fi_skip imageInfo of
        Some (c # cs) \<Rightarrow> push_error (skip_message (c # cs) imageInfo sheetName) st
      | _ \<Rightarrow>
        (case fi_mediaPath imageInfo of
           Some (c # cs) \<Rightarrow>
             (case extractImageData pkg (c # cs) of
                None \<Rightarrow> push_error (skip_message ''extract_failed'' imageInfo sheetName) st
              | Some imageResult \<Rightarrow>
                  (let cellImage = createCellImage (XStr (fi_id imageInfo)) (fi_description imageInfo)
                                     (fi_relationshipId imageInfo) (fi_position imageInfo) imageResult;
                       images' = (if map_of (st_images st) (XStr (fi_id imageInfo)) = None
                                  then AList.update (XStr (fi_id imageInfo)) cellImage (st_images st)
                                  else st_images st)
                   in st\<lparr>st_images := images',
                         st_bySheet := bindImageToCell imageInfo sheetName (st_bySheet st)\<rparr>))
         | _ \<Rightarrow> push_error (skip_message ''missing_media_path'' imageInfo sheetName) st))"

text \<open>The loop \<^verbatim>\<open>for (const imageInfo of floatingImages)\<close> of \<^verbatim>\<open>parseSheetFloatingImages\<close>.\<close>

fun processFloatingImages :: "package \<Rightarrow> FloatingImageInfo list \<Rightarrow> xval \<Rightarrow> fstate \<Rightarrow> fstate" where
  "processFloatingImages pkg [] sheetName st = st"
| "processFloatingImages pkg (imageInfo # rest) sheetName st =
     processFloatingImages pkg rest sheetName (processFloatingImage pkg imageInfo sheetName st)"

text \<open>\<^verbatim>\<open>normalizeTargetPath\<close> called on a relationship's target: \<^verbatim>\<open>target.startsWith\<close> throws
  when the target is no string.\<close>

definition normalize_target :: "folder \<Rightarrow> xval \<Rightarrow> error + string" where
  "normalize_target fromFolder target =
     (case target of XStr s \<Rightarrow> Inr (normalizeTargetPath fromFolder s) | _ \<Rightarrow> Inl TypeError)"

text \<open>The test \<^verbatim>\<open>rel.targetMode && String(rel.targetMode).toLowerCase() === 'external'\<close>.\<close>

definition is_external :: "RelationshipInfo \<Rightarrow> bool" where
  "is_external rel =
     (truthy (rel_targetMode rel) \<and> toLowerCase (js_String (rel_targetMode rel)) = ''external'')"

text \<open>The body of the loop of \<^verbatim>\<open>parseDrawingFile\<close> that annotates one descriptor.\<close>

definition annotate :: "relmap \<Rightarrow> FloatingImageInfo \<Rightarrow> error + FloatingImageInfo" where
  "annotate drawingRels imageInfo =
     (case map_of drawingRels (fi_relationshipId imageInfo) of
        None \<Rightarrow> Inr (imageInfo\<lparr>fi_skip := Some ''missing_relationship''\<rparr>)
      | Some rel \<Rightarrow>
          if is_external rel then Inr (imageInfo\<lparr>fi_skip := Some ''external''\<rparr>)
          else (case normalize_target Drawings (rel_target rel) of
                  Inl e \<Rightarrow> Inl e
                | Inr mediaTarget \<Rightarrow> Inr (imageInfo\<lparr>fi_mediaPath := Some mediaTarget\<rparr>)))"

fun annotate_all :: "relmap \<Rightarrow> FloatingImageInfo list \<Rightarrow> error + FloatingImageInfo list" where
  "annotate_all drawingRels [] = Inr []"
| "annotate_all drawingRels (imageInfo # rest) =
     (case annotate drawingRels imageInfo of
        Inl e \<Rightarrow> Inl e
      | Inr imageInfo' \<Rightarrow>
          (case annotate_all drawingRels rest of
             Inl e \<Rightarrow> Inl e
           | Inr rest' \<Rightarrow> Inr (imageInfo' # rest')))"

definition parseDrawingFile :: "package \<Rightarrow> RelationshipInfo \<Rightarrow> error + FloatingImageInfo list" where
  "parseDrawingFile pkg drawingRel =
     (case normalize_target Worksheets (rel_target drawingRel) of
        Inl e \<Rightarrow> Inl e
      | Inr drawingTarget \<Rightarrow>
          (case read_text pkg (''xl/'' @ drawingTarget) of
             None \<Rightarrow> Inr []
           | Some drawingXml \<Rightarrow>
               (let drawingRelsBase = replace_first ''drawings/'' ''drawings/_rels/'' drawingTarget;
                    drawingRelsPath = ''xl/'' @ drawingRelsBase @ ''.rels'';
                    drawingRels = (case read_text pkg drawingRelsPath of
                                     None \<Rightarrow> []
                                   | Some drawingRelsXml \<Rightarrow>
                                       parseRelationships (xml_parse pkg) drawingRelsXml);
                    floatingImages = parseDrawingXml (xml_parse pkg) drawingXml
                in annotate_all drawingRels floatingImages)))"

definition getSheetRelationships :: "package \<Rightarrow> string \<Rightarrow> relmap option" where
  "getSheetRelationships pkg sheetPath =
     (let baseName = last_segment CHR ''/'' sheetPath;
          sheetRelsPath = ''xl/worksheets/_rels/'' @ baseName @ ''.rels''
      in case read_text pkg sheetRelsPath of
           None \<Rightarrow> None
         | Some sheetRelsXml \<Rightarrow> Some (parseRelationships (xml_parse pkg) sheetRelsXml))"

text \<open>\<^verbatim>\<open>parseSheetFloatingImages\<close>: whatever is thrown inside is caught and only printed, so
  the sheet is left as it was.\<close>

definition parseSheetFloatingImages :: "package \<Rightarrow> xval \<Rightarrow> string \<Rightarrow> fstate \<Rightarrow> fstate" where
  "parseSheetFloatingImages pkg sheetName sheetPath st =
     (case getSheetRelationships pkg sheetPath of
        None \<Rightarrow> st
      | Some sheetRels \<Rightarrow>
          (case findDrawingRelationship sheetRels of
             Inl e \<Rightarrow> st
           | Inr None \<Rightarrow> st
           | Inr (Some drawingRel) \<Rightarrow>
               (case parseDrawingFile pkg drawingRel of
                  Inl e \<Rightarrow> st
                | Inr floatingImages \<Rightarrow> processFloatingImages pkg floatingImages sheetName st)))"

definition getSheetsMap :: "package \<Rightarrow> (xval \<times> string) list" where
  "getSheetsMap pkg =
     (case (read_text pkg ''xl/workbook.xml'', read_text pkg ''xl/_rels/workbook.xml.rels'') of
        (Some workbookXml, Some workbookRelsXml) \<Rightarrow>
          mapSheetNamesToPaths (xml_parse pkg) workbookXml workbookRelsXml
      | _ \<Rightarrow> [])"

fun parseSheets :: "package \<Rightarrow> (xval \<times> string) list \<Rightarrow> fstate \<Rightarrow> fstate" where
  "parseSheets pkg [] st = st"
| "parseSheets pkg ((sheetName, sheetPath) # rest) st =
     parseSheets pkg rest (parseSheetFloatingImages pkg sheetName sheetPath st)"

definition parseFloatingImages :: "package \<Rightarrow> fstate \<Rightarrow> fstate" where
  "parseFloatingImages pkg st = parseSheets pkg (getSheetsMap pkg) st"

text \<open>\<^verbatim>\<open>getSheetFloatingImages\<close>: the sheet's table, an empty one when it has none.\<close>

definition getSheetFloatingImages :: "(xval \<times> floating) list \<Rightarrow> string \<Rightarrow> floating" where
  "getSheetFloatingImages bySheet sheetName =
     (case map_of bySheet (XStr sheetName) of None \<Rightarrow> [] | Some m \<Rightarrow> m)"

section \<open>ExcelImageReader: the named cell images\<close>

record cellImageInfo =
  cim_id :: xval
  cim_description :: xval
  cim_position :: position
  cim_relationshipId :: xval

definition cellImage_of_item :: "xval \<Rightarrow> cellImageInfo option" where
  "cellImage_of_item item =
     (if \<not> truthy item then None
      else
        let pic = js_or (getp item ''xdr:pic'') (js_or (getp item ''pic'') (getp item ''pic''))
        in if \<not> truthy pic then None
           else
             let cNvPr = pic_cNvPr pic;
                 ident = getp cNvPr ''name'';
                 description = js_nullish (getp cNvPr ''descr'') (XStr []);
                 relationshipId = pic_relationshipId pic;
                 position = pic_position pic
             in if truthy ident \<and> truthy relationshipId \<and> pos_x position \<noteq> None
                   \<and> pos_y position \<noteq> None \<and> pos_width position \<noteq> None
                   \<and> pos_height position \<noteq> None
                then Some \<lparr>cim_id = ident, cim_description = description, cim_position = position,
                          cim_relationshipId = relationshipId\<rparr>
                else None)"

definition parseCellImagesXml :: "xml_parser \<Rightarrow> string \<Rightarrow> cellImageInfo list" where
  "parseCellImagesXml parse xml =
     (case parse xml of
        None \<Rightarrow> []
      | Some doc \<Rightarrow>
          (let root = js_or (getp doc ''etc:cellImages'') (js_or (getp doc ''cellImages'') doc);
               itemsRaw = js_or (getp root ''etc:cellImage'') (js_or (getp root ''cellImage'') (XArr []))
           in List.map_filter cellImage_of_item (as_list itemsRaw)))"

text \<open>The loop of \<^verbatim>\<open>parseCellImages\<close>. \<^verbatim>\<open>extractImageData(relationship.target)\<close> returns
  \<^verbatim>\<open>null\<close> for a target that is no string (the part is not found, or the type error of
  \<^verbatim>\<open>toLowerCase\<close> is caught there).\<close>

fun registerCellImages :: "package \<Rightarrow> relmap \<Rightarrow> cellImageInfo list \<Rightarrow> images \<Rightarrow> images" where
  "registerCellImages pkg relationshipMap [] images = images"
| "registerCellImages pkg relationshipMap (cellImage # rest) images =
     registerCellImages pkg relationshipMap rest
       (case map_of relationshipMap (cim_relationshipId cellImage) of
          None \<Rightarrow> images
        | Some relationship \<Rightarrow>
            (case (case rel_target relationship of
                     XStr path \<Rightarrow> extractImageData pkg path
                   | _ \<Rightarrow> None) of
               None \<Rightarrow> images
             | Some imageResult \<Rightarrow>
                 AList.update (cim_id cellImage)
                   (createCellImage (cim_id cellImage) (cim_description cellImage)
                      (cim_relationshipId cellImage) (cim_position cellImage) imageResult)
                   images))"

definition parseCellImages :: "package \<Rightarrow> string \<Rightarrow> string \<Rightarrow> images \<Rightarrow> images" where
  "parseCellImages pkg cellImagesXml cellImagesRels images =
     registerCellImages pkg (parseRelationships (xml_parse pkg) cellImagesRels)
       (parseCellImagesXml (xml_parse pkg) cellImagesXml) images"

text \<open>\<^verbatim>\<open>extractImagesFromBuffer\<close>, once the package is open: the named cell images first,
  when both of their parts are there and not empty, then the floating images.\<close>

definition namedCellImages :: "package \<Rightarrow> fstate \<Rightarrow> fstate" where
  "namedCellImages pkg st =
     (case (read_text pkg ''xl/cellimages.xml'', read_text pkg ''xl/_rels/cellimages.xml.rels'') of
        (Some cellImagesXml, Some cellImagesRels) \<Rightarrow>
          st\<lparr>st_images := parseCellImages pkg cellImagesXml cellImagesRels (st_images st)\<rparr>
      | _ \<Rightarrow> st)"

definition extractImagesFromZip :: "package \<Rightarrow> fstate \<Rightarrow> fstate" where
  "extractImagesFromZip pkg st = parseFloatingImages pkg (namedCellImages pkg st)"


section \<open>ExcelImageReader: cells\<close>

text \<open>
  A cell of the spreadsheet library (\<^verbatim>\<open>XLSX.CellObject\<close>): the raw value \<^verbatim>\<open>v\<close> (a string, a
  number or a boolean, or missing), the type letter \<^verbatim>\<open>t\<close>, the formula text \<^verbatim>\<open>f\<close> and the
  style \<^verbatim>\<open>s\<close>.
\<close>

datatype cellv = VStr string | VNum int | VBool bool

record CellObject =
  cell_v :: "cellv option"
  cell_t :: string
  cell_f :: "string option"
  cell_s :: "nat option"

datatype cell_type = TString | TNumber | TFormula | TImage

record CellData =
  cd_ref :: string
  cd_value :: string
  cd_type :: cell_type
  cd_styleId :: "nat option"
  cd_image :: "CellImage option"
  cd_formula :: "string option"

text \<open>\<^verbatim>\<open>String(cell.v ?? '')\<close>.\<close>

definition value_string :: "cellv option \<Rightarrow> string" where
  "value_string v =
     (case v of
        None \<Rightarrow> []
      | Some (VStr s) \<Rightarrow> s
      | Some (VNum n) \<Rightarrow> show_int n
      | Some (VBool b) \<Rightarrow> (if b then ''true'' else ''false''))"

text \<open>\<^verbatim>\<open>typeof cell.v === 'string' && cell.v.includes('DISPIMG')\<close> and
  \<^verbatim>\<open>cell.f && cell.f.includes('DISPIMG')\<close>.\<close>

definition v_has_DISPIMG :: "CellObject \<Rightarrow> bool" where
  "v_has_DISPIMG cell =
     (case cell_v cell of Some (VStr s) \<Rightarrow> str_includes s ''DISPIMG'' | _ \<Rightarrow> False)"

definition f_has_DISPIMG :: "CellObject \<Rightarrow> bool" where
  "f_has_DISPIMG cell =
     (case cell_f cell of Some f \<Rightarrow> f \<noteq> [] \<and> str_includes f ''DISPIMG'' | None \<Rightarrow> False)"

text \<open>The text of a string value, for use where \<open>v_has_DISPIMG\<close> holds.\<close>

definition v_text :: "CellObject \<Rightarrow> string" where
  "v_text cell = (case cell_v cell of Some (VStr s) \<Rightarrow> s | _ \<Rightarrow> [])"

definition f_text :: "CellObject \<Rightarrow> string" where
  "f_text cell = (case cell_f cell of Some f \<Rightarrow> f | None \<Rightarrow> [])"

text \<open>The first group of the leftmost match of the regular expression
  \<^verbatim>\<open>/DISPIMG\("([^"]+)"/\<close>: at the first position where \<^verbatim>\<open>DISPIMG("\<close> is followed by one or
  more characters other than a double quote and then by a double quote, those characters.\<close>

fun match_DISPIMG :: "string \<Rightarrow> string option" where
  "match_DISPIMG [] = None"
| "match_DISPIMG (c # cs) =
     (if prefix (''DISPIMG('' @ [CHR 0x22]) (c # cs)
      then (let rest = drop 9 (c # cs);
                arg = takeWhile (\<lambda>x. x \<noteq> CHR 0x22) rest
            in if arg \<noteq> [] \<and> length arg < length rest then Some arg else match_DISPIMG cs)
      else match_DISPIMG cs)"

definition attach_image :: "string \<Rightarrow> images \<Rightarrow> CellData \<Rightarrow> CellData" where
  "attach_image txt images cellData =
     (case match_DISPIMG txt of
        None \<Rightarrow> cellData
      | Some imageId \<Rightarrow>
          (case map_of images (XStr imageId) of
             None \<Rightarrow> cellData
           | Some img \<Rightarrow> cellData\<lparr>cd_image := Some img\<rparr>))"

definition parseCell :: "CellObject option \<Rightarrow> string \<Rightarrow> images \<Rightarrow> CellData" where
  "parseCell cello cellRef images =
     (let cellData = \<lparr>cd_ref = cellRef, cd_value = [], cd_type = TString, cd_styleId = None,
                       cd_image = None, cd_formula = None\<rparr>
      in case cello of
           None \<Rightarrow> cellData
         | Some cell \<Rightarrow>
             (let cellData1 = cellData\<lparr>cd_value := value_string (cell_v cell), cd_styleId := cell_s cell\<rparr>;
                  cellData2 =
                    (if cell_t cell = ''s'' then cellData1\<lparr>cd_type := TString\<rparr>
                     else if cell_t cell = ''n'' then cellData1\<lparr>cd_type := TNumber\<rparr>
                     else if cell_f cell \<noteq> None \<and> cell_f cell \<noteq> Some []
                     then cellData1\<lparr>cd_type := TFormula, cd_formula := cell_f cell\<rparr>
                     else cellData1)
              in if v_has_DISPIMG cell
                 then attach_image (v_text cell) images (cellData2\<lparr>cd_type := TImage\<rparr>)
                 else if f_has_DISPIMG cell
                 then attach_image (f_text cell) images (cellData2\<lparr>cd_type := TImage\<rparr>)
                 else cellData2))"

definition isImageCell :: "CellObject option \<Rightarrow> bool" where
  "isImageCell cello =
     (case cello of
        None \<Rightarrow> False
      | Some cell \<Rightarrow> if v_has_DISPIMG cell then True else if f_has_DISPIMG cell then True else False)"

definition extractImageIdFromCell :: "CellObject option \<Rightarrow> string option" where
  "extractImageIdFromCell cello =
     (case cello of
        None \<Rightarrow> None
      | Some cell \<Rightarrow>
          (let textToSearch =
                 (if f_has_DISPIMG cell then f_text cell
                  else if v_has_DISPIMG cell then v_text cell
                  else [])
           in if textToSearch \<noteq> [] then match_DISPIMG textToSearch else None))"

section \<open>ExcelImageReader: worksheets\<close>

text \<open>
  A sheet of the spreadsheet library: the declared range \<^verbatim>\<open>!ref\<close>, the cells by reference,
  the row heights \<^verbatim>\<open>!rows[r].hpt\<close> (\<open>None\<close> where \<^verbatim>\<open>!rows\<close>, the entry or its height is
  missing) and the column descriptions \<^verbatim>\<open>!cols\<close>.
\<close>

record ColInfo =
  col_min :: "nat option"
  col_max :: "nat option"
  col_width :: "nat option"
  col_customWidth :: "bool option"

record WorkSheet =
  ws_ref :: "string option"
  ws_cells :: "string \<Rightarrow> CellObject option"
  ws_rows :: "int \<Rightarrow> nat option"
  ws_cols :: "ColInfo list option"

record ParseOptions =
  includeImages :: bool
  includeEmptyRows :: bool
  includeEmptyColumns :: bool

record RowData =
  rd_rowNumber :: int
  rd_height :: "nat option"
  rd_customHeight :: "bool option"
  rd_cells :: "CellData list"
  rd_imageCount :: nat
  rd_imageCells :: "string list"

record Column =
  cl_min :: nat
  cl_max :: nat
  cl_width :: nat
  cl_customWidth :: bool

record WorksheetData =
  wd_name :: string
  wd_dimension :: "string \<times> string"
  wd_rows :: "RowData list"
  wd_columns :: "Column list"
  wd_totalImages :: nat
  wd_rowsWithImages :: nat

text \<open>\<^verbatim>\<open>x || d\<close> on an optional number.\<close>

definition nat_or :: "nat option \<Rightarrow> nat \<Rightarrow> nat" where
  "nat_or x d = (case x of None \<Rightarrow> d | Some n \<Rightarrow> if n = 0 then d else n)"

definition parseColumns :: "WorkSheet \<Rightarrow> Column list" where
  "parseColumns worksheet =
     (case ws_cols worksheet of
        None \<Rightarrow> []
      | Some cols \<Rightarrow>
          map (\<lambda>col. \<lparr>cl_min = nat_or (col_min col) 0, cl_max = nat_or (col_max col) 0,
                       cl_width = nat_or (col_width col) 9,
                       cl_customWidth = (case col_customWidth col of None \<Rightarrow> False | Some b \<Rightarrow> b)\<rparr>)
            cols)"

text \<open>The scan bounds \<open>(startRow, startCol, endRow, endCol)\<close>, and their growth over the
  keys of the sheet's floating-image table.\<close>

type_synonym bounds = "int \<times> int \<times> int \<times> int"

fun expandBounds :: "string list \<Rightarrow> bounds \<Rightarrow> bounds" where
  "expandBounds [] b = b"
| "expandBounds (cellRef # rest) (startRow, startCol, endRow, endCol) =
     (case decode_cell cellRef of
        (r, c) \<Rightarrow>
          expandBounds rest
            (if r < startRow then r else startRow, if c < startCol then c else startCol,
             if r > endRow then r else endRow, if c > endCol then c else endCol))"

text \<open>The state of the scan of one row: the set \<^verbatim>\<open>rowSeen\<close>, the row being built and the
  sheet's running \<^verbatim>\<open>totalImages\<close>.\<close>

type_synonym rowscan = "string list \<times> RowData \<times> nat"

text \<open>The loop \<^verbatim>\<open>for (const fid of floatingIds)\<close>.\<close>

fun countFloating :: "string \<Rightarrow> string list \<Rightarrow> rowscan \<Rightarrow> rowscan" where
  "countFloating cellRef [] st = st"
| "countFloating cellRef (fid # fids) (rowSeen, rowData, totalImages) =
     countFloating cellRef fids
       (if fid \<notin> set rowSeen
        then (rowSeen @ [fid],
              rowData\<lparr>rd_imageCount := rd_imageCount rowData + 1,
                      rd_imageCells := rd_imageCells rowData @ [cellRef]\<rparr>,
              totalImages + 1)
        else (rowSeen, rowData, totalImages))"

text \<open>The test of the named cell image of a cell: it is an image cell and the id found in
  it is a key of \<^verbatim>\<open>images\<close>.\<close>

definition namedImageHit :: "CellObject option \<Rightarrow> images \<Rightarrow> bool" where
  "namedImageHit cello images =
     (isImageCell cello \<and>
      (case extractImageIdFromCell cello of
         None \<Rightarrow> False
       | Some imageId \<Rightarrow> imageId \<noteq> [] \<and> map_of images (XStr imageId) \<noteq> None))"

text \<open>The cell record of a cell that is emitted: what \<^verbatim>\<open>parseCell\<close> builds, with the first
  floating image bound to the cell as its image when the cell has none of its own.\<close>

definition cellWithFloating :: "CellObject option \<Rightarrow> string \<Rightarrow> images \<Rightarrow> string list \<Rightarrow> CellData" where
  "cellWithFloating cello cellRef images floatingIds =
     (let cellData = parseCell cello cellRef images
      in if cd_image cellData = None \<and> floatingIds \<noteq> []
         then (case map_of images (XStr (hd floatingIds)) of
                 None \<Rightarrow> cellData
               | Some img \<Rightarrow> cellData\<lparr>cd_image := Some img\<rparr>)
         else cellData)"

text \<open>The body of the loop over the columns of a row.\<close>

definition scanCell ::
  "WorkSheet \<Rightarrow> images \<Rightarrow> ParseOptions \<Rightarrow> floating \<Rightarrow> int \<Rightarrow> int \<Rightarrow> rowscan \<Rightarrow> rowscan" where
  "scanCell worksheet images options floatingForSheet rowNum colNum st =
     (let cellRef = encode_cell rowNum colNum;
          cello = ws_cells worksheet cellRef;
          floatingIds = (case map_of floatingForSheet cellRef of None \<Rightarrow> [] | Some ids \<Rightarrow> ids);
          st1 = countFloating cellRef floatingIds st
      in if cello \<noteq> None \<or> includeEmptyColumns options
         then
           (let cellData = cellWithFloating cello cellRef images floatingIds
            in case st1 of
                 (rowSeen, rowData, totalImages) \<Rightarrow>
                   (let rowData1 = rowData\<lparr>rd_cells := rd_cells rowData @ [cellData]\<rparr>
                    in if namedImageHit cello images
                       then (rowSeen,
                             rowData1\<lparr>rd_imageCount := rd_imageCount rowData1 + 1,
                                      rd_imageCells := rd_imageCells rowData1 @ [cellRef]\<rparr>,
                             totalImages + 1)
                       else (rowSeen, rowData1, totalImages)))
         else st1)"

definition newRow :: "WorkSheet \<Rightarrow> int \<Rightarrow> RowData" where
  "newRow worksheet rowNum =
     (let rowData = \<lparr>rd_rowNumber = rowNum + 1, rd_height = None, rd_customHeight = None,
                      rd_cells = [], rd_imageCount = 0, rd_imageCells = []\<rparr>
      in case ws_rows worksheet rowNum of
           None \<Rightarrow> rowData
         | Some hpt \<Rightarrow>
             if hpt \<noteq> 0 then rowData\<lparr>rd_height := Some hpt, rd_customHeight := Some True\<rparr>
             else rowData)"

text \<open>One row: the columns from \<open>startCol\<close> to \<open>endCol\<close>, left to right.\<close>

definition scanRow ::
  "WorkSheet \<Rightarrow> images \<Rightarrow> ParseOptions \<Rightarrow> floating \<Rightarrow> int \<Rightarrow> int \<Rightarrow> int \<Rightarrow> nat \<Rightarrow> rowscan" where
  "scanRow worksheet images options floatingForSheet startCol endCol rowNum totalImages =
     fold (scanCell worksheet images options floatingForSheet rowNum) [startCol..endCol]
       ([], newRow worksheet rowNum, totalImages)"

text \<open>The row inclusion test \<^verbatim>\<open>options.includeEmptyRows || rowData.cells.some(cell => cell.value !== '')\<close>.\<close>

definition keepRow :: "ParseOptions \<Rightarrow> RowData \<Rightarrow> bool" where
  "keepRow options rowData =
     (includeEmptyRows options \<or> list_ex (\<lambda>cell. cd_value cell \<noteq> []) (rd_cells rowData))"

text \<open>The state of the scan of a sheet: \<^verbatim>\<open>rows\<close>, \<^verbatim>\<open>totalImages\<close> and \<^verbatim>\<open>rowsWithImages\<close>.\<close>

type_synonym sheetscan = "RowData list \<times> nat \<times> nat"

definition rowStep ::
  "WorkSheet \<Rightarrow> images \<Rightarrow> ParseOptions \<Rightarrow> floating \<Rightarrow> int \<Rightarrow> int \<Rightarrow> int \<Rightarrow> sheetscan \<Rightarrow> sheetscan" where
  "rowStep worksheet images options floatingForSheet startCol endCol rowNum st =
     (case st of
        (rows, totalImages, rowsWithImages) \<Rightarrow>
          (case scanRow worksheet images options floatingForSheet startCol endCol rowNum totalImages of
             (rowSeen, rowData, totalImages') \<Rightarrow>
               (if keepRow options rowData then rows @ [rowData] else rows,
                totalImages',
                if rd_imageCount rowData > 0 then rowsWithImages + 1 else rowsWithImages)))"

text \<open>The declared range: \<^verbatim>\<open>XLSX.utils.decode_range(worksheet['!ref'] || 'A1:A1')\<close>.\<close>

definition declaredRange :: "WorkSheet \<Rightarrow> (int \<times> int) \<times> (int \<times> int)" where
  "declaredRange worksheet =
     decode_range (case ws_ref worksheet of
                     None \<Rightarrow> ''A1:A1''
                   | Some ref \<Rightarrow> if ref = [] then ''A1:A1'' else ref)"

definition scanBounds :: "WorkSheet \<Rightarrow> floating \<Rightarrow> bounds" where
  "scanBounds worksheet floatingForSheet =
     (case declaredRange worksheet of
        ((sr, sc), (er, ec)) \<Rightarrow> expandBounds (map fst floatingForSheet) (sr, sc, er, ec))"

definition scanSheet :: "WorkSheet \<Rightarrow> images \<Rightarrow> ParseOptions \<Rightarrow> floating \<Rightarrow> sheetscan" where
  "scanSheet worksheet images options floatingForSheet =
     (case scanBounds worksheet floatingForSheet of
        (startRow, startCol, endRow, endCol) \<Rightarrow>
          fold (rowStep worksheet images options floatingForSheet startCol endCol)
            [startRow..endRow] ([], 0, 0))"

definition parseWorksheet ::
  "WorkSheet \<Rightarrow> string \<Rightarrow> images \<Rightarrow> ParseOptions \<Rightarrow> floating \<Rightarrow> WorksheetData" where
  "parseWorksheet worksheet sheetName images options floatingForSheet =
     (case scanSheet worksheet images options floatingForSheet of
        (rows, totalImages, rowsWithImages) \<Rightarrow>
          (case declaredRange worksheet of
             ((sr, sc), (er, ec)) \<Rightarrow>
               \<lparr>wd_name = sheetName,
                wd_dimension = (encode_cell sr sc, encode_cell er ec),
                wd_rows = rows,
                wd_columns = parseColumns worksheet,
                wd_totalImages = totalImages,
                wd_rowsWithImages = rowsWithImages\<rparr>))"

section \<open>ExcelImageReader: a whole parse\<close>

text \<open>
  \<^verbatim>\<open>parseBuffer\<close> once \<^verbatim>\<open>XLSX.read\<close> has delivered the workbook and \<^verbatim>\<open>JSZip.loadAsync\<close> the
  package: the manager's table is cleared, the images are extracted when \<^verbatim>\<open>includeImages\<close>
  is set, and every sheet is walked with the table of its name.
\<close>

record WorkBook =
  SheetNames :: "string list"
  Sheets :: "string \<Rightarrow> WorkSheet"

record ExcelParseResult =
  res_worksheets :: "WorksheetData list"
  res_images :: images
  res_errors :: "string list"

definition parseBuffer :: "WorkBook \<Rightarrow> package \<Rightarrow> ParseOptions \<Rightarrow> ExcelParseResult" where
  "parseBuffer workbook pkg options =
     (let st0 = \<lparr>st_images = [], st_errors = [], st_bySheet = []\<rparr>;
          st = (if includeImages options then extractImagesFromZip pkg st0 else st0)
      in \<lparr>res_worksheets =
            map (\<lambda>sheetName.
                   parseWorksheet (Sheets workbook sheetName) sheetName (st_images st) options
                     (getSheetFloatingImages (st_bySheet st) sheetName))
              (SheetNames workbook),
          res_images = st_images st,
          res_errors = st_errors st\<rparr>)"

section \<open>Notions used to state the properties of a sheet's scan\<close>

text \<open>The ids bound to a cell in the sheet's floating-image table, and the cell itself.\<close>

definition floatingAt :: "floating \<Rightarrow> int \<Rightarrow> int \<Rightarrow> string list" where
  "floatingAt floatingForSheet r c =
     (case map_of floatingForSheet (encode_cell r c) of None \<Rightarrow> [] | Some ids \<Rightarrow> ids)"

definition cellAt :: "WorkSheet \<Rightarrow> int \<Rightarrow> int \<Rightarrow> CellObject option" where
  "cellAt worksheet r c = ws_cells worksheet (encode_cell r c)"

text \<open>The row record the scan builds for row \<open>rowNum\<close>, and the records of all the rows of
  the scan range, whether they are emitted or not.\<close>

definition scannedRow ::
  "WorkSheet \<Rightarrow> images \<Rightarrow> ParseOptions \<Rightarrow> floating \<Rightarrow> int \<Rightarrow> int \<Rightarrow> int \<Rightarrow> RowData" where
  "scannedRow worksheet images options floatingForSheet startCol endCol rowNum =
     fst (snd (scanRow worksheet images options floatingForSheet startCol endCol rowNum 0))"

definition scannedRows :: "WorkSheet \<Rightarrow> images \<Rightarrow> ParseOptions \<Rightarrow> floating \<Rightarrow> RowData list" where
  "scannedRows worksheet images options floatingForSheet =
     (case scanBounds worksheet floatingForSheet of
        (startRow, startCol, endRow, endCol) \<Rightarrow>
          map (scannedRow worksheet images options floatingForSheet startCol endCol)
            [startRow..endRow])"


section \<open>Notions used to state the properties of a skipped image\<close>

text \<open>The map \<^verbatim>\<open>drawingRels\<close> that \<^verbatim>\<open>parseDrawingFile\<close> builds for the drawing stored under
  \<open>drawingTarget\<close>: the relationships of the part beside it, none when that part is missing
  or empty.\<close>

definition drawingRelationships :: "package \<Rightarrow> string \<Rightarrow> relmap" where
  "drawingRelationships pkg drawingTarget =
     (case read_text pkg
             (''xl/'' @ replace_first ''drawings/'' ''drawings/_rels/'' drawingTarget @ ''.rels'') of
        None \<Rightarrow> []
      | Some drawingRelsXml \<Rightarrow> parseRelationships (xml_parse pkg) drawingRelsXml)"

text \<open>The annotation loop of \<^verbatim>\<open>parseDrawingFile\<close> calls \<^verbatim>\<open>normalizeTargetPath\<close> on the target
  of every relationship that a descriptor refers to and that is not external. The loop
  runs to its end when each of these targets is a string.\<close>

definition string_target :: "RelationshipInfo \<Rightarrow> bool" where
  "string_target rel = (case rel_target rel of XStr s \<Rightarrow> True | _ \<Rightarrow> False)"

definition annotation_passes :: "relmap \<Rightarrow> FloatingImageInfo list \<Rightarrow> bool" where
  "annotation_passes drawingRels floatingImages =
     list_all (\<lambda>imageInfo.
                 case map_of drawingRels (fi_relationshipId imageInfo) of
                   None \<Rightarrow> True
                 | Some rel \<Rightarrow> is_external rel \<or> string_target rel)
       floatingImages"


section \<open>A sample package\<close>

text \<open>
  A small workbook used to run the model: one sheet \<^verbatim>\<open>Sheet1\<close> with the declared range
  \<^verbatim>\<open>A1:B51\<close>, a named cell image \<^verbatim>\<open>img1\<close> referenced from \<^verbatim>\<open>B2\<close>, and a drawing with five
  anchors. Each part's text stands for itself; the parser maps it to the values
  \<^verbatim>\<open>fast-xml-parser\<close> delivers for such a part.
\<close>

definition demo_pic :: "(string \<times> xval) list \<Rightarrow> string \<Rightarrow> xval" where
  "demo_pic cNvPr rid =
     XObj [(''xdr:nvPicPr'', XObj [(''xdr:cNvPr'', XObj cNvPr)]),
           (''xdr:blipFill'', XObj [(''a:blip'', XObj [(''r:embed'', XStr rid)])]),
           (''xdr:spPr'', XObj [(''a:xfrm'',
              XObj [(''a:off'', XObj [(''x'', XStr ''0''), (''y'', XStr ''0'')]),
                    (''a:ext'', XObj [(''cx'', XStr ''9525''), (''cy'', XStr ''9525'')])])])]"

definition demo_anchor :: "int \<Rightarrow> int \<Rightarrow> xval \<Rightarrow> xval" where
  "demo_anchor row col pic =
     XObj [(''xdr:from'', XObj [(''xdr:col'', XNum col), (''xdr:row'', XNum row)]),
           (''xdr:pic'', pic)]"

definition demo_drawing :: xval where
  "demo_drawing =
     XObj [(''xdr:wsDr'',
       XObj [(''xdr:twoCellAnchor'',
                XArr [demo_anchor 5 0 (demo_pic [(''id'', XStr ''2''), (''name'', XStr ''Picture 1'')] ''rId1''),
                      demo_anchor 6 1 (demo_pic [(''id'', XStr ''3''), (''name'', XStr ''  '')] ''rId2''),
                      demo_anchor 7 2 (demo_pic [] ''rId3''),
                      demo_anchor 100 0 (demo_pic [(''name'', XStr ''img1'')] ''rId1'')]),
             (''xdr:oneCellAnchor'', demo_anchor 2 1 (demo_pic [] '' ''))])]"

definition demo_rel :: "string \<Rightarrow> string \<Rightarrow> string \<Rightarrow> xval" where
  "demo_rel ident type target =
     XObj [(''Id'', XStr ident), (''Type'', XStr type), (''Target'', XStr target)]"

definition demo_drawing_rels :: xval where
  "demo_drawing_rels =
     XObj [(''Relationships'', XObj [(''Relationship'',
       XArr [demo_rel ''rId1'' ''http://schemas/relationships/image'' ''../media/image1.png'',
             XObj [(''Id'', XStr ''rId2''), (''Type'', XStr ''http://schemas/relationships/image''),
                   (''Target'', XStr ''http://example.org/logo.png''),
                   (''TargetMode'', XStr ''External'')],
             demo_rel ''rId3'' ''http://schemas/relationships/image'' ''../media/image3.gif''])])]"

definition demo_cellimages :: xval where
  "demo_cellimages =
     XObj [(''etc:cellImages'', XObj [(''etc:cellImage'',
       XObj [(''xdr:pic'', demo_pic [(''id'', XStr ''9''), (''name'', XStr ''img1'')] ''rId1'')])])]"

definition demo_parse :: xml_parser where
  "demo_parse =
     map_of
       [(''workbook.xml'',
           XObj [(''workbook'', XObj [(''sheets'', XObj [(''sheet'',
             XObj [(''name'', XStr ''Sheet1''), (''sheetId'', XStr ''1''), (''r:id'', XStr ''rId1'')])])])]),
        (''workbook.xml.rels'',
           XObj [(''Relationships'', XObj [(''Relationship'',
             demo_rel ''rId1'' ''http://schemas/relationships/worksheet'' ''worksheets/sheet1.xml'')])]),
        (''sheet1.xml.rels'',
           XObj [(''Relationships'', XObj [(''Relationship'',
             demo_rel ''rId1'' ''http://schemas/relationships/drawing'' ''../drawings/drawing1.xml'')])]),
        (''drawing1.xml'', demo_drawing),
        (''drawing1.xml.rels'', demo_drawing_rels),
        (''cellimages.xml'', demo_cellimages),
        (''cellimages.xml.rels'',
           XObj [(''Relationships'', XObj [(''Relationship'',
             demo_rel ''rId1'' ''http://schemas/relationships/image'' ''media/image2.jpeg'')])])]"

text \<open>A stand-in for \<^verbatim>\<open>Buffer.toString('base64')\<close>.\<close>

definition demo_base64 :: "string \<Rightarrow> string" where
  "demo_base64 bytes = ''base64 of '' @ bytes"

definition demo_package :: package where
  "demo_package =
     \<lparr>zip_files =
        map_of
          [(''xl/workbook.xml'', ''workbook.xml''),
           (''xl/_rels/workbook.xml.rels'', ''workbook.xml.rels''),
           (''xl/worksheets/_rels/sheet1.xml.rels'', ''sheet1.xml.rels''),
           (''xl/drawings/drawing1.xml'', ''drawing1.xml''),
           (''xl/drawings/_rels/drawing1.xml.rels'', ''drawing1.xml.rels''),
           (''xl/cellimages.xml'', ''cellimages.xml''),
           (''xl/_rels/cellimages.xml.rels'', ''cellimages.xml.rels''),
           (''xl/media/image1.png'', ''png bytes''),
           (''xl/media/image2.jpeg'', ''jpeg bytes'')],
      xml_parse = demo_parse,
      to_base64 = demo_base64\<rparr>"

definition no_cells :: "string \<Rightarrow> CellObject option" where
  "no_cells cellRef = None"

definition no_heights :: "int \<Rightarrow> nat option" where
  "no_heights rowNum = None"

definition demo_sheet :: WorkSheet where
  "demo_sheet =
     \<lparr>ws_ref = Some ''A1:B51'',
      ws_cells =
        map_of
          [(''A1'', \<lparr>cell_v = Some (VStr ''Name''), cell_t = ''s'', cell_f = None, cell_s = None\<rparr>),
           (''B2'', \<lparr>cell_v = Some (VStr (''=DISPIMG('' @ [CHR 0x22] @ ''img1'' @ [CHR 0x22] @ '',1)'')),
                     cell_t = ''s'',
                     cell_f = Some (''_xlfn.DISPIMG('' @ [CHR 0x22] @ ''img1'' @ [CHR 0x22] @ '',1)''),
                     cell_s = None\<rparr>),
           (''A51'', \<lparr>cell_v = Some (VNum 7), cell_t = ''n'', cell_f = None, cell_s = None\<rparr>)],
      ws_rows = no_heights,
      ws_cols = None\<rparr>"

definition demo_workbook :: WorkBook where
  "demo_workbook = \<lparr>SheetNames = [''Sheet1''], Sheets = (\<lambda>sheetName. demo_sheet)\<rparr>"

definition default_options :: ParseOptions where
  "default_options = \<lparr>includeImages = True, includeEmptyRows = False, includeEmptyColumns = False\<rparr>"

text \<open>The images map and the floating-image table of \<^verbatim>\<open>Sheet1\<close> that the sample package
  yields, and three small sheets: one without any cell, one whose two cells refer to the
  same named image, and a cell whose value mentions \<^verbatim>\<open>DISPIMG\<close> while only its formula
  holds the call.\<close>

definition demo_image :: CellImage where
  "demo_image =
     \<lparr>ci_id = XStr ''img1'', ci_description = XStr [],
      ci_base64 = ''data:image/jpeg;base64,base64 of jpeg bytes'', ci_mimeType = ''image/jpeg'',
      ci_position = \<lparr>pos_x = Some 0, pos_y = Some 0, pos_width = Some 9525, pos_height = Some 9525\<rparr>,
      ci_relationshipId = XStr ''rId1''\<rparr>"

definition demo_images :: images where
  "demo_images = [(XStr ''img1'', demo_image)]"

definition demo_floating :: floating where
  "demo_floating = [(''A6'', [''Picture 1'']), (''A101'', [''img1''])]"

definition bare_sheet :: WorkSheet where
  "bare_sheet = \<lparr>ws_ref = Some ''A1:A1'', ws_cells = no_cells, ws_rows = no_heights, ws_cols = None\<rparr>"

definition dispimg_cell :: CellObject where
  "dispimg_cell =
     \<lparr>cell_v = Some (VStr (''=DISPIMG('' @ [CHR 0x22] @ ''img1'' @ [CHR 0x22] @ '',1)'')),
      cell_t = ''s'',
      cell_f = Some (''_xlfn.DISPIMG('' @ [CHR 0x22] @ ''img1'' @ [CHR 0x22] @ '',1)''),
      cell_s = None\<rparr>"

definition twin_sheet :: WorkSheet where
  "twin_sheet =
     \<lparr>ws_ref = Some ''A1:B1'',
      ws_cells = map_of [(''A1'', dispimg_cell), (''B1'', dispimg_cell)],
      ws_rows = no_heights, ws_cols = None\<rparr>"

definition shadow_cell :: CellObject where
  "shadow_cell =
     \<lparr>cell_v = Some (VStr ''DISPIMG''),
      cell_t = ''s'',
      cell_f = Some (''_xlfn.DISPIMG('' @ [CHR 0x22] @ ''img1'' @ [CHR 0x22] @ '',1)''),
      cell_s = None\<rparr>"


text \<open>Two more packages around a drawing of two pictures, the first of them linked by
  \<^verbatim>\<open>rId2\<close> to an external target. The packages differ in the drawing's relationship part:
  in one the relationship \<^verbatim>\<open>rId1\<close> of the second picture has its \<^verbatim>\<open>Target\<close> written as a
  child element with the text \<^verbatim>\<open>5\<close>, which the parser delivers as a number; in the other
  the external relationship has an empty \<^verbatim>\<open>Target\<close>.\<close>

definition skip_drawing :: xval where
  "skip_drawing =
     XObj [(''xdr:wsDr'',
       XObj [(''xdr:twoCellAnchor'',
                XArr [demo_anchor 6 1 (demo_pic [(''id'', XStr ''3'')] ''rId2''),
                      demo_anchor 5 0 (demo_pic [(''name'', XStr ''Picture 1'')] ''rId1'')])])]"

definition external_rel :: "string \<Rightarrow> xval" where
  "external_rel target =
     XObj [(''Id'', XStr ''rId2''), (''Type'', XStr ''http://schemas/relationships/image''),
           (''Target'', XStr target), (''TargetMode'', XStr ''External'')]"

definition numeric_target_rels :: xval where
  "numeric_target_rels =
     XObj [(''Relationships'', XObj [(''Relationship'',
       XArr [XObj [(''Id'', XStr ''rId1''), (''Type'', XStr ''http://schemas/relationships/image''),
                   (''Target'', XNum 5)],
             external_rel ''http://example.org/logo.png''])])]"

definition empty_target_rels :: xval where
  "empty_target_rels =
     XObj [(''Relationships'', XObj [(''Relationship'',
       XArr [demo_rel ''rId1'' ''http://schemas/relationships/image'' ''../media/image1.png'',
             external_rel []])])]"

definition skip_parse :: "xval \<Rightarrow> xml_parser" where
  "skip_parse drawingRels =
     map_of
       [(''workbook.xml'',
           XObj [(''workbook'', XObj [(''sheets'', XObj [(''sheet'',
             XObj [(''name'', XStr ''Sheet1''), (''sheetId'', XStr ''1''), (''r:id'', XStr ''rId1'')])])])]),
        (''workbook.xml.rels'',
           XObj [(''Relationships'', XObj [(''Relationship'',
             demo_rel ''rId1'' ''http://schemas/relationships/worksheet'' ''worksheets/sheet1.xml'')])]),
        (''sheet1.xml.rels'',
           XObj [(''Relationships'', XObj [(''Relationship'',
             demo_rel ''rId1'' ''http://schemas/relationships/drawing'' ''../drawings/drawing1.xml'')])]),
        (''drawing1.xml'', skip_drawing),
        (''drawing1.xml.rels'', drawingRels)]"

definition skip_package :: "xval \<Rightarrow> package" where
  "skip_package drawingRels =
     \<lparr>zip_files =
        map_of
          [(''xl/workbook.xml'', ''workbook.xml''),
           (''xl/_rels/workbook.xml.rels'', ''workbook.xml.rels''),
           (''xl/worksheets/_rels/sheet1.xml.rels'', ''sheet1.xml.rels''),
           (''xl/drawings/drawing1.xml'', ''drawing1.xml''),
           (''xl/drawings/_rels/drawing1.xml.rels'', ''drawing1.xml.rels''),
           (''xl/media/image1.png'', ''png bytes'')],
      xml_parse = skip_parse drawingRels,
      to_base64 = demo_base64\<rparr>"

section \<open>Unfolding rules for running the model on concrete inputs\<close>

lemmas str_eval = trim_def is_space_def toLowerCase_def lower_char_def char_of_def bit_Suc_0_iff
  show_int_def digits_of.simps encode_cell_def encode_col.simps str_or_def strip_prefix_def
  strip_slashes_def last_segment_def decode_cell_def decode_range_def Let_def

lemmas js_eval = js_or_def js_nullish_def as_list_def number_of_string_def is_digit_def
  nat_of_digits_def

lemmas rel_eval = parseRelationships_def relationship_elements_def rel_complete_def
  rel_record_def normalizeTargetPath_def normalize_target_def is_external_def
  mapSheetNamesToPaths_def sheet_target_def

lemmas drawing_eval = parseDrawingXml_def drawing_anchors_def unwrapAlternateContent_def
  extractImageFromAnchor_def pic_cNvPr_def pic_relationshipId_def pic_position_def
  nameCandidate_def idCandidate_def relCandidate_def List.map_filter_simps

lemmas floating_eval = read_text_def getMimeTypeFromPath_def extractImageData_def
  createCellImage_def bindImageToCell_def skip_message_def push_error_def
  processFloatingImage_def annotate_def parseDrawingFile_def getSheetRelationships_def
  parseSheetFloatingImages_def getSheetsMap_def parseFloatingImages_def
  getSheetFloatingImages_def cellImage_of_item_def parseCellImagesXml_def parseCellImages_def
  namedCellImages_def extractImagesFromZip_def

lemmas demo_eval = demo_parse_def demo_drawing_def demo_anchor_def demo_pic_def demo_rel_def
  demo_drawing_rels_def demo_cellimages_def demo_package_def demo_base64_def

lemmas sheet_eval = parseWorksheet_def scanSheet_def scanBounds_def declaredRange_def rowStep_def
  scanRow_def scanCell_def cellWithFloating_def newRow_def keepRow_def parseColumns_def
  upto_rec1

lemmas cell_eval = parseCell_def namedImageHit_def isImageCell_def extractImageIdFromCell_def
  v_has_DISPIMG_def f_has_DISPIMG_def v_text_def f_text_def attach_image_def value_string_def


section \<open>The sample package, evaluated\<close>

lemma demo_infos:
  "parseDrawingXml demo_parse ''drawing1.xml'' =
     [\<lparr>fi_id = ''Picture 1'', fi_description = XStr [], fi_relationshipId = XStr ''rId1'',
       fi_position = \<lparr>pos_x = Some 0, pos_y = Some 0, pos_width = Some 9525, pos_height = Some 9525\<rparr>,
       fi_cellRef = ''A6'', fi_rowIndex = 5, fi_colIndex = 0, fi_skip = None, fi_mediaPath = None\<rparr>,
      \<lparr>fi_id = ''3'', fi_description = XStr [], fi_relationshipId = XStr ''rId2'',
       fi_position = \<lparr>pos_x = Some 0, pos_y = Some 0, pos_width = Some 9525, pos_height = Some 9525\<rparr>,
       fi_cellRef = ''B7'', fi_rowIndex = 6, fi_colIndex = 1, fi_skip = None, fi_mediaPath = None\<rparr>,
      \<lparr>fi_id = ''rId3'', fi_description = XStr [], fi_relationshipId = XStr ''rId3'',
       fi_position = \<lparr>pos_x = Some 0, pos_y = Some 0, pos_width = Some 9525, pos_height = Some 9525\<rparr>,
       fi_cellRef = ''C8'', fi_rowIndex = 7, fi_colIndex = 2, fi_skip = None, fi_mediaPath = None\<rparr>,
      \<lparr>fi_id = ''img1'', fi_description = XStr [], fi_relationshipId = XStr ''rId1'',
       fi_position = \<lparr>pos_x = Some 0, pos_y = Some 0, pos_width = Some 9525, pos_height = Some 9525\<rparr>,
       fi_cellRef = ''A101'', fi_rowIndex = 100, fi_colIndex = 0, fi_skip = None, fi_mediaPath = None\<rparr>,
      \<lparr>fi_id = ''floating_B3'', fi_description = XStr [], fi_relationshipId = XStr '' '',
       fi_position = \<lparr>pos_x = Some 0, pos_y = Some 0, pos_width = Some 9525, pos_height = Some 9525\<rparr>,
       fi_cellRef = ''B3'', fi_rowIndex = 2, fi_colIndex = 1, fi_skip = None, fi_mediaPath = None\<rparr>]"
  by (simp add: str_eval js_eval drawing_eval demo_eval)

lemma demo_rels:
  "parseRelationships demo_parse ''drawing1.xml.rels'' =
     [(XStr ''rId1'', \<lparr>rel_id = XStr ''rId1'', rel_type = XStr ''http://schemas/relationships/image'',
                       rel_target = XStr ''../media/image1.png'', rel_targetMode = XUndef\<rparr>),
      (XStr ''rId2'', \<lparr>rel_id = XStr ''rId2'', rel_type = XStr ''http://schemas/relationships/image'',
                       rel_target = XStr ''http://example.org/logo.png'',
                       rel_targetMode = XStr ''External''\<rparr>),
      (XStr ''rId3'', \<lparr>rel_id = XStr ''rId3'', rel_type = XStr ''http://schemas/relationships/image'',
                       rel_target = XStr ''../media/image3.gif'', rel_targetMode = XUndef\<rparr>)]"
  by (simp add: js_eval rel_eval demo_eval)

lemma demo_annotated:
  "annotate_all (parseRelationships demo_parse ''drawing1.xml.rels'')
     (parseDrawingXml demo_parse ''drawing1.xml'') =
   Inr (map (\<lambda>(info, skip, path). info\<lparr>fi_skip := skip, fi_mediaPath := path\<rparr>)
          (zip (parseDrawingXml demo_parse ''drawing1.xml'')
             [(None, Some ''media/image1.png''), (Some ''external'', None),
              (None, Some ''media/image3.gif''), (None, Some ''media/image1.png''),
              (Some ''missing_relationship'', None)]))"
  unfolding demo_infos demo_rels
  by (simp add: annotate_def is_external_def normalize_target_def normalizeTargetPath_def
        str_eval)

lemma demo_pkg_parse: "xml_parse demo_package = demo_parse"
  by (simp add: demo_package_def)

lemma demo_pkg_b64: "to_base64 demo_package = demo_base64"
  by (simp add: demo_package_def)







section \<open>Relationship files\<close>

lemma find_app:
  "find P (xs @ ys) = (case find P xs of None \<Rightarrow> find P ys | Some x \<Rightarrow> Some x)"
  by (induction xs) simp_all

lemma addRelationships_distinct:
  "distinct (map fst m) \<Longrightarrow> distinct (map fst (addRelationships es m))"
  by (induction es arbitrary: m) (simp_all add: distinct_update)

lemma addRelationships_keys:
  "fst ` set (addRelationships es m) =
     fst ` set m \<union> {getp e ''Id'' | e. e \<in> set es \<and> rel_complete e}"
  by (induction es arbitrary: m) (auto simp: dom_update)

lemma addRelationships_map_of:
  "map_of (addRelationships es m) k =
     (case find (\<lambda>e. rel_complete e \<and> getp e ''Id'' = k) (rev es) of
        Some e \<Rightarrow> Some (rel_record e)
      | None \<Rightarrow> map_of m k)"
  by (induction es arbitrary: m) (auto simp: update_conv' find_app split: option.splits)

text \<open>
  C8, as the code has it. \<^verbatim>\<open>parseRelationships\<close> returns a map for every input text: the
  empty map when the parser throws; otherwise a map with pairwise distinct keys whose keys
  are exactly the \<^verbatim>\<open>Id\<close>s of the \<^verbatim>\<open>Relationship\<close> elements whose \<^verbatim>\<open>Id\<close>, \<^verbatim>\<open>Type\<close> and
  \<^verbatim>\<open>Target\<close> are all present and truthy (for an attribute: not empty), and the record
  under a key is built from the last such element with that \<^verbatim>\<open>Id\<close>. An element with one
  of the three missing or empty contributes nothing.
\<close>

theorem parseRelationships_records:
  "(parse relsXml = None \<longrightarrow> parseRelationships parse relsXml = [])
   \<and> (\<forall>doc. parse relsXml = Some doc \<longrightarrow>
         distinct (map fst (parseRelationships parse relsXml))
       \<and> fst ` set (parseRelationships parse relsXml) =
           {getp e ''Id'' | e. e \<in> set (relationship_elements doc) \<and> rel_complete e}
       \<and> (\<forall>k. map_of (parseRelationships parse relsXml) k =
             map_option rel_record
               (find (\<lambda>e. rel_complete e \<and> getp e ''Id'' = k)
                  (rev (relationship_elements doc)))))"
  by (auto simp: parseRelationships_def addRelationships_distinct addRelationships_keys
        addRelationships_map_of split: option.splits)

theorem parseRelationships_records_witness:
  "map_of [(''<Relationships/>'',
            XObj [(''Relationships'', XObj [(''Relationship'',
              XArr [XObj [(''Id'', XStr ''rId1''), (''Type'', XStr ''t/image''),
                          (''Target'', XStr ''media/image1.png'')],
                    XObj [(''Id'', XStr ''rId2''), (''Type'', XStr ''t/image'')],
                    XObj [(''Id'', XStr ''rId1''), (''Type'', XStr ''t/image''),
                          (''Target'', XStr ''media/image2.png''),
                          (''TargetMode'', XStr ''External'')]])])])] ''<Relationships/>'' \<noteq> None
   \<and> map_of (parseRelationships
        (map_of [(''<Relationships/>'',
            XObj [(''Relationships'', XObj [(''Relationship'',
              XArr [XObj [(''Id'', XStr ''rId1''), (''Type'', XStr ''t/image''),
                          (''Target'', XStr ''media/image1.png'')],
                    XObj [(''Id'', XStr ''rId2''), (''Type'', XStr ''t/image'')],
                    XObj [(''Id'', XStr ''rId1''), (''Type'', XStr ''t/image''),
                          (''Target'', XStr ''media/image2.png''),
                          (''TargetMode'', XStr ''External'')]])])])])
        ''<Relationships/>'') (XStr ''rId1'')
     = Some \<lparr>rel_id = XStr ''rId1'', rel_type = XStr ''t/image'',
              rel_target = XStr ''media/image2.png'', rel_targetMode = XStr ''External''\<rparr>
   \<and> map_of (parseRelationships
        (map_of [(''<Relationships/>'',
            XObj [(''Relationships'', XObj [(''Relationship'',
              XArr [XObj [(''Id'', XStr ''rId1''), (''Type'', XStr ''t/image''),
                          (''Target'', XStr ''media/image1.png'')],
                    XObj [(''Id'', XStr ''rId2''), (''Type'', XStr ''t/image'')],
                    XObj [(''Id'', XStr ''rId1''), (''Type'', XStr ''t/image''),
                          (''Target'', XStr ''media/image2.png''),
                          (''TargetMode'', XStr ''External'')]])])])])
        ''<Relationships/>'') (XStr ''rId2'') = None"
  using parseRelationships_records
    [of "map_of [(''<Relationships/>'',
            XObj [(''Relationships'', XObj [(''Relationship'',
              XArr [XObj [(''Id'', XStr ''rId1''), (''Type'', XStr ''t/image''),
                          (''Target'', XStr ''media/image1.png'')],
                    XObj [(''Id'', XStr ''rId2''), (''Type'', XStr ''t/image'')],
                    XObj [(''Id'', XStr ''rId1''), (''Type'', XStr ''t/image''),
                          (''Target'', XStr ''media/image2.png''),
                          (''TargetMode'', XStr ''External'')]])])])]" "''<Relationships/>''"]
  by (simp add: relationship_elements_def as_list_def rel_complete_def rel_record_def)

text \<open>
  C8 as stated fails: a \<^verbatim>\<open>Relationship\<close> element that carries the three attributes
  \<^verbatim>\<open>Id\<close>, \<^verbatim>\<open>Type\<close> and \<^verbatim>\<open>Target\<close>, the last with an empty value, produces no record.
\<close>

theorem parseRelationships_counterexample:
  "map_of [(''Id'', XStr ''rId1''), (''Type'', XStr ''t/image''), (''Target'', XStr '''')] ''Id''
     = Some (XStr ''rId1'')
   \<and> map_of [(''Id'', XStr ''rId1''), (''Type'', XStr ''t/image''), (''Target'', XStr '''')] ''Type''
     = Some (XStr ''t/image'')
   \<and> map_of [(''Id'', XStr ''rId1''), (''Type'', XStr ''t/image''), (''Target'', XStr '''')] ''Target''
     = Some (XStr '''')
   \<and> parseRelationships
        (map_of [(''<Relationships/>'',
           XObj [(''Relationships'', XObj [(''Relationship'',
             XObj [(''Id'', XStr ''rId1''), (''Type'', XStr ''t/image''),
                   (''Target'', XStr '''')])])])])
        ''<Relationships/>'' = []"
  by (simp add: parseRelationships_def relationship_elements_def as_list_def rel_complete_def)


section \<open>Path normalisation\<close>

text \<open>
  C6, as the code has it. A target starting with \<^verbatim>\<open>../\<close> loses that prefix (once); one
  starting with \<^verbatim>\<open>/\<close> loses all its leading slashes; otherwise a target that starts
  with a folder name the calling folder recognises is returned unchanged and any other is
  prefixed with the calling folder's name. From \<^verbatim>\<open>worksheets\<close> the recognised names are
  \<^verbatim>\<open>worksheets/\<close>, \<^verbatim>\<open>drawings/\<close> and \<^verbatim>\<open>media/\<close>; from \<^verbatim>\<open>drawings\<close> they are
  \<^verbatim>\<open>drawings/\<close> and \<^verbatim>\<open>media/\<close> only.
\<close>

theorem normalizeTargetPath_rule:
  "normalizeTargetPath fo target =
     (if prefix ''../'' target then drop 3 target
      else if prefix ''/'' target then dropWhile (\<lambda>c. c = CHR ''/'') target
      else if \<exists>p \<in> set (recognised fo). prefix p target then target
      else folder_name fo @ ''/'' @ target)"
  by (cases fo)
     (simp_all add: normalizeTargetPath_def recognised_def folder_name_def
        strip_prefix_def strip_slashes_def eval_nat_numeral)

theorem normalizeTargetPath_rule_witness:
  "normalizeTargetPath Worksheets ''../drawings/drawing1.xml'' = ''drawings/drawing1.xml''
   \<and> normalizeTargetPath Drawings ''//media/image1.png'' = ''media/image1.png''
   \<and> normalizeTargetPath Drawings ''media/image1.png'' = ''media/image1.png''
   \<and> normalizeTargetPath Worksheets ''sheet1.xml'' = ''worksheets/sheet1.xml''"
  using normalizeTargetPath_rule [of Worksheets "''../drawings/drawing1.xml''"]
    normalizeTargetPath_rule [of Drawings "''//media/image1.png''"]
    normalizeTargetPath_rule [of Drawings "''media/image1.png''"]
    normalizeTargetPath_rule [of Worksheets "''sheet1.xml''"]
  by (simp add: recognised_def folder_name_def)

text \<open>
  C6 as stated fails: called from \<^verbatim>\<open>drawings\<close>, a target that starts with the
  recognised folder name \<^verbatim>\<open>worksheets/\<close> is not returned unchanged.
\<close>

theorem normalizeTargetPath_counterexample:
  "normalizeTargetPath Drawings ''worksheets/sheet1.xml'' = ''drawings/worksheets/sheet1.xml''
   \<and> normalizeTargetPath Drawings ''worksheets/sheet1.xml'' \<noteq> ''worksheets/sheet1.xml''"
  by (simp add: normalizeTargetPath_def strip_prefix_def strip_slashes_def)

section \<open>Floating images: skipped descriptors\<close>

lemma processFloatingImages_append:
  "processFloatingImages pkg (xs @ ys) sheetName st =
     processFloatingImages pkg ys sheetName (processFloatingImages pkg xs sheetName st)"
  by (induction xs arbitrary: st) simp_all

lemma processFloatingImage_cases:
  "processFloatingImage pkg imageInfo sheetName st =
     (if fi_skip imageInfo \<noteq> None \<and> fi_skip imageInfo \<noteq> Some []
      then push_error (skip_message (the (fi_skip imageInfo)) imageInfo sheetName) st
      else if fi_mediaPath imageInfo = None \<or> fi_mediaPath imageInfo = Some []
      then push_error (skip_message ''missing_media_path'' imageInfo sheetName) st
      else case extractImageData pkg (the (fi_mediaPath imageInfo)) of
             None \<Rightarrow> push_error (skip_message ''extract_failed'' imageInfo sheetName) st
           | Some imageResult \<Rightarrow>
               st\<lparr>st_images :=
                     (if map_of (st_images st) (XStr (fi_id imageInfo)) = None
                      then AList.update (XStr (fi_id imageInfo))
                             (createCellImage (XStr (fi_id imageInfo)) (fi_description imageInfo)
                                (fi_relationshipId imageInfo) (fi_position imageInfo) imageResult)
                             (st_images st)
                      else st_images st),
                   st_bySheet := bindImageToCell imageInfo sheetName (st_bySheet st)\<rparr>)"
  unfolding processFloatingImage_def Let_def
  by (cases "fi_skip imageInfo"; cases "fi_mediaPath imageInfo"; simp split: list.split option.split)


lemma processFloatingImage_errors_mono:
  "set (st_errors st) \<subseteq> set (st_errors (processFloatingImage pkg imageInfo sheetName st))"
  by (simp add: processFloatingImage_cases push_error_def split: option.split) auto

lemma processFloatingImages_errors_mono:
  "set (st_errors st) \<subseteq> set (st_errors (processFloatingImages pkg infos sheetName st))"
proof (induction infos arbitrary: st)
  case Nil
  show ?case by simp
next
  case (Cons a infos)
  have "set (st_errors st) \<subseteq> set (st_errors (processFloatingImage pkg a sheetName st))"
    by (rule processFloatingImage_errors_mono)
  also have "\<dots> \<subseteq> set (st_errors (processFloatingImages pkg infos sheetName
                          (processFloatingImage pkg a sheetName st)))"
    by (rule Cons.IH)
  finally show ?case by simp
qed

lemma annotate_all_length:
  "annotate_all rels infos = Inr annotated \<Longrightarrow> length annotated = length infos"
  by (induction infos arbitrary: annotated) (auto split: sum.splits)

lemma annotate_all_nth:
  "annotate_all rels infos = Inr annotated \<Longrightarrow> i < length infos \<Longrightarrow>
     annotate rels (infos ! i) = Inr (annotated ! i)"
proof (induction infos arbitrary: annotated i)
  case Nil
  then show ?case by simp
next
  case (Cons a infos)
  then show ?case by (cases i) (auto split: sum.splits)
qed

lemma annotate_external:
  "map_of rels (fi_relationshipId imageInfo) = Some rel \<Longrightarrow> is_external rel \<Longrightarrow>
     annotate rels imageInfo = Inr (imageInfo\<lparr>fi_skip := Some ''external''\<rparr>)"
  by (simp add: annotate_def)

lemma process_external:
  "processFloatingImage pkg (imageInfo\<lparr>fi_skip := Some ''external''\<rparr>) sheetName st =
     st\<lparr>st_errors := st_errors st @ [skip_message ''external'' imageInfo sheetName]\<rparr>"
  by (simp add: processFloatingImage_cases push_error_def skip_message_def)

lemma annotate_all_passes:
  "(\<exists>annotated. annotate_all drawingRels floatingImages = Inr annotated)
     \<longleftrightarrow> annotation_passes drawingRels floatingImages"
proof (induction floatingImages)
  case Nil
  show ?case by (simp add: annotation_passes_def)
next
  case (Cons a infos)
  have step: "(\<exists>a'. annotate drawingRels a = Inr a') \<longleftrightarrow>
          (case map_of drawingRels (fi_relationshipId a) of
             None \<Rightarrow> True
           | Some rel \<Rightarrow> is_external rel \<or> string_target rel)"
    by (auto simp: annotate_def normalize_target_def string_target_def
          split: option.split xval.split)
  show ?case
    using Cons.IH step
    by (auto simp: annotation_passes_def split: sum.splits)
qed

lemma parseDrawingFile_unfold:
  assumes "rel_target drawingRel = XStr target"
      and "read_text pkg (''xl/'' @ normalizeTargetPath Worksheets target) = Some drawingXml"
  shows "parseDrawingFile pkg drawingRel =
           annotate_all (drawingRelationships pkg (normalizeTargetPath Worksheets target))
             (parseDrawingXml (xml_parse pkg) drawingXml)"
  using assms
  by (simp add: parseDrawingFile_def normalize_target_def drawingRelationships_def Let_def)

lemma parseDrawingXml_fresh:
  assumes "d \<in> set (parseDrawingXml parse drawingXml)"
  shows "fi_skip d = None \<and> fi_mediaPath d = None"
proof -
  from assms obtain doc where doc: "parse drawingXml = Some doc"
    by (cases "parse drawingXml") (simp_all add: parseDrawingXml_def)
  with assms obtain anchor where a: "extractImageFromAnchor anchor = Some d"
    by (auto simp: parseDrawingXml_def List.map_filter_def)
  then show ?thesis
    by (auto simp: extractImageFromAnchor_def Let_def split: if_splits option.splits)
qed

lemma processFloatingImage_frame:
  assumes "st_images st = st_images st'" and "st_bySheet st = st_bySheet st'"
  shows "st_images (processFloatingImage pkg imageInfo sheetName st) =
           st_images (processFloatingImage pkg imageInfo sheetName st')
       \<and> st_bySheet (processFloatingImage pkg imageInfo sheetName st) =
           st_bySheet (processFloatingImage pkg imageInfo sheetName st')"
  using assms
  by (auto simp: processFloatingImage_cases push_error_def split: option.split)

lemma processFloatingImages_frame:
  assumes "st_images st = st_images st'" and "st_bySheet st = st_bySheet st'"
  shows "st_images (processFloatingImages pkg infos sheetName st) =
           st_images (processFloatingImages pkg infos sheetName st')
       \<and> st_bySheet (processFloatingImages pkg infos sheetName st) =
           st_bySheet (processFloatingImages pkg infos sheetName st')"
  using assms
proof (induction infos arbitrary: st st')
  case Nil
  then show ?case by simp
next
  case (Cons a infos)
  from processFloatingImage_frame [OF Cons.prems]
  have "st_images (processFloatingImage pkg a sheetName st) =
           st_images (processFloatingImage pkg a sheetName st')"
       "st_bySheet (processFloatingImage pkg a sheetName st) =
           st_bySheet (processFloatingImage pkg a sheetName st')"
    by blast+
  from Cons.IH [OF this] show ?case by simp
qed

lemma parseSheetFloatingImages_errors_mono:
  "set (st_errors st) \<subseteq> set (st_errors (parseSheetFloatingImages pkg sheetName sheetPath st))"
  by (simp add: parseSheetFloatingImages_def processFloatingImages_errors_mono
        split: option.split sum.split)

lemma parseSheets_errors_mono:
  "set (st_errors st) \<subseteq> set (st_errors (parseSheets pkg sheets st))"
proof (induction sheets arbitrary: st)
  case Nil
  show ?case by simp
next
  case (Cons a sheets)
  obtain n p where a: "a = (n, p)" by (cases a)
  have "set (st_errors st) \<subseteq> set (st_errors (parseSheetFloatingImages pkg n p st))"
    by (rule parseSheetFloatingImages_errors_mono)
  also have "\<dots> \<subseteq> set (st_errors (parseSheets pkg sheets (parseSheetFloatingImages pkg n p st)))"
    by (rule Cons.IH)
  finally show ?case by (simp add: a)
qed

lemma parseSheets_reports:
  assumes "(sheetName, sheetPath) \<in> set sheets"
      and "\<And>st. msg \<in> set (st_errors (parseSheetFloatingImages pkg sheetName sheetPath st))"
  shows "msg \<in> set (st_errors (parseSheets pkg sheets st))"
  using assms(1)
proof (induction sheets arbitrary: st)
  case Nil
  then show ?case by simp
next
  case (Cons a sheets)
  show ?case
  proof (cases "a = (sheetName, sheetPath)")
    case True
    have "msg \<in> set (st_errors (parseSheetFloatingImages pkg sheetName sheetPath st))"
      by (rule assms(2))
    then show ?thesis
      using parseSheets_errors_mono [of "parseSheetFloatingImages pkg sheetName sheetPath st" pkg sheets]
      by (auto simp: True)
  next
    case False
    with Cons.prems have "(sheetName, sheetPath) \<in> set sheets" by simp
    from Cons.IH [OF this] show ?thesis by (cases a) simp
  qed
qed

lemma external_annotated:
  assumes passes: "annotation_passes drawingRels floatingImages"
      and i: "i < length floatingImages"
      and rel: "map_of drawingRels (fi_relationshipId (floatingImages ! i)) = Some rel"
      and ext: "is_external rel"
  obtains annotated where "annotate_all drawingRels floatingImages = Inr annotated"
      and "length annotated = length floatingImages"
      and "annotated ! i = (floatingImages ! i)\<lparr>fi_skip := Some ''external''\<rparr>"
proof -
  from passes obtain annotated where ann: "annotate_all drawingRels floatingImages = Inr annotated"
    using annotate_all_passes by blast
  have "annotated ! i = (floatingImages ! i)\<lparr>fi_skip := Some ''external''\<rparr>"
    using annotate_all_nth [OF ann i] annotate_external [OF rel ext] by simp
  with ann annotate_all_length [OF ann] that show ?thesis by blast
qed

lemma skipped_loop:
  assumes i: "i < length annotated"
      and a: "annotated ! i = imageInfo\<lparr>fi_skip := Some ''external''\<rparr>"
  shows "processFloatingImages pkg annotated sheetName st =
           processFloatingImages pkg (drop (Suc i) annotated) sheetName
             ((processFloatingImages pkg (take i annotated) sheetName st)
                \<lparr>st_errors := st_errors (processFloatingImages pkg (take i annotated) sheetName st)
                     @ [skip_message ''external'' imageInfo sheetName]\<rparr>)"
proof -
  have split: "annotated = take i annotated @ (annotated ! i) # drop (Suc i) annotated"
    using i by (simp add: id_take_nth_drop)
  show ?thesis
    by (subst split) (simp add: processFloatingImages_append a process_external)
qed

lemma skipped_frame:
  assumes i: "i < length annotated"
      and a: "annotated ! i = imageInfo\<lparr>fi_skip := Some ''external''\<rparr>"
  shows "st_images (processFloatingImages pkg annotated sheetName st) =
           st_images (processFloatingImages pkg (take i annotated @ drop (Suc i) annotated) sheetName st)
       \<and> st_bySheet (processFloatingImages pkg annotated sheetName st) =
           st_bySheet (processFloatingImages pkg (take i annotated @ drop (Suc i) annotated) sheetName st)"
  unfolding skipped_loop [OF i a] processFloatingImages_append
  by (rule processFloatingImages_frame) simp_all

lemma skipped_reported:
  assumes i: "i < length annotated"
      and a: "annotated ! i = imageInfo\<lparr>fi_skip := Some ''external''\<rparr>"
  shows "skip_message ''external'' imageInfo sheetName
           \<in> set (st_errors (processFloatingImages pkg annotated sheetName st))"
proof -
  let ?s1 = "processFloatingImages pkg (take i annotated) sheetName st"
  let ?s2 = "?s1\<lparr>st_errors := st_errors ?s1 @ [skip_message ''external'' imageInfo sheetName]\<rparr>"
  have "skip_message ''external'' imageInfo sheetName \<in> set (st_errors ?s2)"
    by simp
  moreover have "set (st_errors ?s2) \<subseteq>
      set (st_errors (processFloatingImages pkg (drop (Suc i) annotated) sheetName ?s2))"
    by (rule processFloatingImages_errors_mono)
  ultimately show ?thesis unfolding skipped_loop [OF i a] by blast
qed

lemma parseSheetFloatingImages_unfold:
  assumes "getSheetRelationships pkg sheetPath = Some sheetRels"
      and "findDrawingRelationship sheetRels = Inr (Some drawingRel)"
      and "parseDrawingFile pkg drawingRel = Inr annotated"
  shows "parseSheetFloatingImages pkg sheetName sheetPath st =
           processFloatingImages pkg annotated sheetName st"
  using assms by (simp add: parseSheetFloatingImages_def)

text \<open>When the annotation loop throws, the sheet's \<^verbatim>\<open>catch\<close> leaves the result as it was:
  no image of the sheet is reported, processed or bound.\<close>

lemma parseSheetFloatingImages_silent:
  assumes rels: "getSheetRelationships pkg sheetPath = Some sheetRels"
      and drawing: "findDrawingRelationship sheetRels = Inr (Some drawingRel)"
      and target: "rel_target drawingRel = XStr target"
      and xml: "read_text pkg (''xl/'' @ normalizeTargetPath Worksheets target) = Some drawingXml"
      and fails: "\<not> annotation_passes (drawingRelationships pkg (normalizeTargetPath Worksheets target))
                     (parseDrawingXml (xml_parse pkg) drawingXml)"
  shows "parseSheetFloatingImages pkg sheetName sheetPath st = st"
proof -
  from fails annotate_all_passes
  obtain e where "annotate_all (drawingRelationships pkg (normalizeTargetPath Worksheets target))
                    (parseDrawingXml (xml_parse pkg) drawingXml) = Inl e"
    by (metis sum.exhaust)
  then have "parseDrawingFile pkg drawingRel = Inl e"
    using parseDrawingFile_unfold [OF target xml] by simp
  then show ?thesis
    using rels drawing by (simp add: parseSheetFloatingImages_def)
qed

lemma parseBuffer_errors:
  "includeImages options \<Longrightarrow>
     res_errors (parseBuffer workbook pkg options) =
       st_errors (parseSheets pkg (getSheetsMap pkg)
                    (namedCellImages pkg \<lparr>st_images = [], st_errors = [], st_bySheet = []\<rparr>))"
  by (simp add: parseBuffer_def Let_def extractImagesFromZip_def parseFloatingImages_def)

section \<open>Floating images: the sample packages, evaluated\<close>

lemma demo_sheets_map:
  "getSheetsMap demo_package = [(XStr ''Sheet1'', ''worksheets/sheet1.xml'')]"
  by (simp add: getSheetsMap_def read_text_def demo_package_def demo_parse_def
        mapSheetNamesToPaths_def parseRelationships_def relationship_elements_def
        rel_complete_def rel_record_def as_list_def js_or_def demo_rel_def sheet_target_def)

lemma demo_sheet_rels:
  "getSheetRelationships demo_package ''worksheets/sheet1.xml'' =
     Some [(XStr ''rId1'',
            \<lparr>rel_id = XStr ''rId1'', rel_type = XStr ''http://schemas/relationships/drawing'',
             rel_target = XStr ''../drawings/drawing1.xml'', rel_targetMode = XUndef\<rparr>)]"
  by (simp add: getSheetRelationships_def last_segment_def read_text_def demo_package_def
        demo_parse_def parseRelationships_def relationship_elements_def
        rel_complete_def rel_record_def as_list_def demo_rel_def)

lemma demo_find_drawing:
  "findDrawingRelationship
     [(XStr ''rId1'',
       \<lparr>rel_id = XStr ''rId1'', rel_type = XStr ''http://schemas/relationships/drawing'',
        rel_target = XStr ''../drawings/drawing1.xml'', rel_targetMode = XUndef\<rparr>)] =
   Inr (Some \<lparr>rel_id = XStr ''rId1'', rel_type = XStr ''http://schemas/relationships/drawing'',
        rel_target = XStr ''../drawings/drawing1.xml'', rel_targetMode = XUndef\<rparr>)"
  by simp

lemma drawing1_target:
  "normalizeTargetPath Worksheets ''../drawings/drawing1.xml'' = ''drawings/drawing1.xml''"
  by (simp add: normalizeTargetPath_def strip_prefix_def)

lemma demo_drawing_text:
  "read_text demo_package (''xl/'' @ normalizeTargetPath Worksheets ''../drawings/drawing1.xml'') =
     Some ''drawing1.xml''"
  by (simp add: drawing1_target read_text_def demo_package_def)

lemma demo_drawing_relationships:
  "drawingRelationships demo_package (normalizeTargetPath Worksheets ''../drawings/drawing1.xml'') =
     parseRelationships demo_parse ''drawing1.xml.rels''"
  by (simp add: drawing1_target drawingRelationships_def read_text_def demo_package_def)

lemma demo_passes:
  "annotation_passes
     (drawingRelationships demo_package (normalizeTargetPath Worksheets ''../drawings/drawing1.xml''))
     (parseDrawingXml (xml_parse demo_package) ''drawing1.xml'')"
  unfolding demo_drawing_relationships demo_pkg_parse demo_infos demo_rels
  by (simp add: annotation_passes_def is_external_def string_target_def str_eval)

lemma skip_sheets_map:
  "getSheetsMap (skip_package rels) = [(XStr ''Sheet1'', ''worksheets/sheet1.xml'')]"
  by (simp add: getSheetsMap_def read_text_def skip_package_def skip_parse_def
        mapSheetNamesToPaths_def parseRelationships_def relationship_elements_def
        rel_complete_def rel_record_def as_list_def js_or_def demo_rel_def sheet_target_def)

lemma skip_named: "namedCellImages (skip_package rels) st = st"
  by (simp add: namedCellImages_def read_text_def skip_package_def)

lemma skip_sheet_rels:
  "getSheetRelationships (skip_package rels) ''worksheets/sheet1.xml'' =
     Some [(XStr ''rId1'',
            \<lparr>rel_id = XStr ''rId1'', rel_type = XStr ''http://schemas/relationships/drawing'',
             rel_target = XStr ''../drawings/drawing1.xml'', rel_targetMode = XUndef\<rparr>)]"
  by (simp add: getSheetRelationships_def last_segment_def read_text_def skip_package_def
        skip_parse_def parseRelationships_def relationship_elements_def
        rel_complete_def rel_record_def as_list_def demo_rel_def)

lemma skip_drawing_text:
  "read_text (skip_package rels) (''xl/'' @ normalizeTargetPath Worksheets ''../drawings/drawing1.xml'') =
     Some ''drawing1.xml''"
  by (simp add: drawing1_target read_text_def skip_package_def)

lemma skip_infos:
  "parseDrawingXml (xml_parse (skip_package rels)) ''drawing1.xml'' =
     [\<lparr>fi_id = ''3'', fi_description = XStr [], fi_relationshipId = XStr ''rId2'',
       fi_position = \<lparr>pos_x = Some 0, pos_y = Some 0, pos_width = Some 9525, pos_height = Some 9525\<rparr>,
       fi_cellRef = ''B7'', fi_rowIndex = 6, fi_colIndex = 1, fi_skip = None, fi_mediaPath = None\<rparr>,
      \<lparr>fi_id = ''Picture 1'', fi_description = XStr [], fi_relationshipId = XStr ''rId1'',
       fi_position = \<lparr>pos_x = Some 0, pos_y = Some 0, pos_width = Some 9525, pos_height = Some 9525\<rparr>,
       fi_cellRef = ''A6'', fi_rowIndex = 5, fi_colIndex = 0, fi_skip = None, fi_mediaPath = None\<rparr>]"
  by (simp add: skip_package_def skip_parse_def skip_drawing_def demo_anchor_def demo_pic_def
        str_eval js_eval drawing_eval)

lemma numeric_relationships:
  "drawingRelationships (skip_package numeric_target_rels)
     (normalizeTargetPath Worksheets ''../drawings/drawing1.xml'') =
     [(XStr ''rId1'', \<lparr>rel_id = XStr ''rId1'', rel_type = XStr ''http://schemas/relationships/image'',
                       rel_target = XNum 5, rel_targetMode = XUndef\<rparr>),
      (XStr ''rId2'', \<lparr>rel_id = XStr ''rId2'', rel_type = XStr ''http://schemas/relationships/image'',
                       rel_target = XStr ''http://example.org/logo.png'',
                       rel_targetMode = XStr ''External''\<rparr>)]"
  by (simp add: drawing1_target drawingRelationships_def read_text_def skip_package_def
        skip_parse_def numeric_target_rels_def external_rel_def parseRelationships_def
        relationship_elements_def rel_complete_def rel_record_def as_list_def)

lemma empty_relationships:
  "drawingRelationships (skip_package empty_target_rels)
     (normalizeTargetPath Worksheets ''../drawings/drawing1.xml'') =
     [(XStr ''rId1'', \<lparr>rel_id = XStr ''rId1'', rel_type = XStr ''http://schemas/relationships/image'',
                       rel_target = XStr ''../media/image1.png'', rel_targetMode = XUndef\<rparr>)]"
  by (simp add: drawing1_target drawingRelationships_def read_text_def skip_package_def
        skip_parse_def empty_target_rels_def external_rel_def demo_rel_def parseRelationships_def
        relationship_elements_def rel_complete_def rel_record_def as_list_def)

lemma numeric_sheet:
  "parseSheetFloatingImages (skip_package numeric_target_rels) (XStr ''Sheet1'')
     ''worksheets/sheet1.xml'' st = st"
proof -
  have "parseDrawingFile (skip_package numeric_target_rels)
          \<lparr>rel_id = XStr ''rId1'', rel_type = XStr ''http://schemas/relationships/drawing'',
           rel_target = XStr ''../drawings/drawing1.xml'', rel_targetMode = XUndef\<rparr> = Inl TypeError"
    apply (subst parseDrawingFile_unfold [OF _ skip_drawing_text])
     apply simp
    unfolding numeric_relationships skip_infos
    by (simp add: annotate_def is_external_def normalize_target_def str_eval)
  then show ?thesis
    by (simp add: parseSheetFloatingImages_def skip_sheet_rels)
qed

lemma skip_image1:
  "extractImageData (skip_package rels) ''media/image1.png'' =
     Some \<lparr>ier_id = [], ier_description = [],
            ier_base64 = ''data:image/png;base64,base64 of png bytes'',
            ier_mimeType = ''image/png'', ier_rawData = ''png bytes''\<rparr>"
  by (simp add: extractImageData_def getMimeTypeFromPath_def skip_package_def demo_base64_def
        last_segment_def toLowerCase_def lower_char_def char_of_def bit_Suc_0_iff)

lemma empty_sheet:
  "st_errors (parseSheetFloatingImages (skip_package empty_target_rels) (XStr ''Sheet1'')
     ''worksheets/sheet1.xml'' \<lparr>st_images = [], st_errors = [], st_bySheet = []\<rparr>) =
     [''[skip] reason=missing_relationship id=3 sheet=Sheet1 cell=B7'']"
proof -
  have "parseDrawingFile (skip_package empty_target_rels)
          \<lparr>rel_id = XStr ''rId1'', rel_type = XStr ''http://schemas/relationships/drawing'',
           rel_target = XStr ''../drawings/drawing1.xml'', rel_targetMode = XUndef\<rparr> =
        Inr [\<lparr>fi_id = ''3'', fi_description = XStr [], fi_relationshipId = XStr ''rId2'',
       fi_position = \<lparr>pos_x = Some 0, pos_y = Some 0, pos_width = Some 9525, pos_height = Some 9525\<rparr>,
       fi_cellRef = ''B7'', fi_rowIndex = 6, fi_colIndex = 1,
       fi_skip = Some ''missing_relationship'', fi_mediaPath = None\<rparr>,
      \<lparr>fi_id = ''Picture 1'', fi_description = XStr [], fi_relationshipId = XStr ''rId1'',
       fi_position = \<lparr>pos_x = Some 0, pos_y = Some 0, pos_width = Some 9525, pos_height = Some 9525\<rparr>,
       fi_cellRef = ''A6'', fi_rowIndex = 5, fi_colIndex = 0, fi_skip = None,
       fi_mediaPath = Some ''media/image1.png''\<rparr>]"
    apply (subst parseDrawingFile_unfold [OF _ skip_drawing_text])
     apply simp
    unfolding empty_relationships skip_infos
    by (simp add: annotate_def is_external_def normalize_target_def normalizeTargetPath_def str_eval)
  then show ?thesis
    by (simp add: parseSheetFloatingImages_def skip_sheet_rels processFloatingImage_cases
          skip_image1 push_error_def skip_message_def)
qed

text \<open>
  C5. Take a sheet of the package's sheet map whose relationship part names a drawing that
  is there and not empty, and a descriptor of that drawing whose relationship id is a key
  of the drawing's relationship map, with a record whose target mode equals \<^verbatim>\<open>external\<close>
  (letter case ignored). Provided the annotation loop of \<^verbatim>\<open>parseDrawingFile\<close> runs to its
  end, i.e. every relationship of the drawing that a descriptor refers to and that is not
  external has a string as its target, and images are included in the parse:
  \<^verbatim>\<open>parseDrawingFile\<close> returns the descriptors, this one marked \<^verbatim>\<open>__skip = 'external'\<close> and
  without a media path; processing it, with any package, changes nothing but the error
  list, to which the text \<^verbatim>\<open>[skip] reason=external id=... sheet=... cell=...\<close> is appended;
  \<^verbatim>\<open>parseSheetFloatingImages\<close> processes the descriptors before it, appends the text and
  goes on with the descriptors after it; the images map and the binding table it leaves
  are those of the drawing without this descriptor; and the text is in the \<^verbatim>\<open>errors\<close> of
  the parse result.
\<close>

theorem external_image_skipped:
  assumes sheets: "(sheetName, sheetPath) \<in> set (getSheetsMap pkg)"
      and rels: "getSheetRelationships pkg sheetPath = Some sheetRels"
      and drawing: "findDrawingRelationship sheetRels = Inr (Some drawingRel)"
      and target: "rel_target drawingRel = XStr target"
      and xml: "read_text pkg (''xl/'' @ normalizeTargetPath Worksheets target) = Some drawingXml"
      and passes: "annotation_passes (drawingRelationships pkg (normalizeTargetPath Worksheets target))
                     (parseDrawingXml (xml_parse pkg) drawingXml)"
      and i: "i < length (parseDrawingXml (xml_parse pkg) drawingXml)"
      and rel: "map_of (drawingRelationships pkg (normalizeTargetPath Worksheets target))
                  (fi_relationshipId (parseDrawingXml (xml_parse pkg) drawingXml ! i)) = Some rel"
      and ext: "is_external rel"
      and opts: "includeImages options"
  shows "\<exists>annotated.
           parseDrawingFile pkg drawingRel = Inr annotated
         \<and> length annotated = length (parseDrawingXml (xml_parse pkg) drawingXml)
         \<and> annotated ! i = (parseDrawingXml (xml_parse pkg) drawingXml ! i)\<lparr>fi_skip := Some ''external''\<rparr>
         \<and> fi_mediaPath (annotated ! i) = None
         \<and> (\<forall>pkg' st'. processFloatingImage pkg' (annotated ! i) sheetName st' =
               st'\<lparr>st_errors := st_errors st' @
                     [''[skip] reason=external id='' @ fi_id (annotated ! i) @ '' sheet=''
                        @ js_String sheetName @ '' cell='' @ fi_cellRef (annotated ! i)]\<rparr>)
         \<and> (\<forall>st. parseSheetFloatingImages pkg sheetName sheetPath st =
               processFloatingImages pkg (drop (Suc i) annotated) sheetName
                 ((processFloatingImages pkg (take i annotated) sheetName st)
                    \<lparr>st_errors := st_errors (processFloatingImages pkg (take i annotated) sheetName st) @
                       [''[skip] reason=external id='' @ fi_id (annotated ! i) @ '' sheet=''
                          @ js_String sheetName @ '' cell='' @ fi_cellRef (annotated ! i)]\<rparr>))
         \<and> (\<forall>st. st_images (parseSheetFloatingImages pkg sheetName sheetPath st) =
               st_images (processFloatingImages pkg (take i annotated @ drop (Suc i) annotated)
                            sheetName st))
         \<and> (\<forall>st. st_bySheet (parseSheetFloatingImages pkg sheetName sheetPath st) =
               st_bySheet (processFloatingImages pkg (take i annotated @ drop (Suc i) annotated)
                            sheetName st))
         \<and> (''[skip] reason=external id='' @ fi_id (annotated ! i) @ '' sheet=''
               @ js_String sheetName @ '' cell='' @ fi_cellRef (annotated ! i))
              \<in> set (res_errors (parseBuffer workbook pkg options))"
proof -
  let ?rels = "drawingRelationships pkg (normalizeTargetPath Worksheets target)"
  let ?infos = "parseDrawingXml (xml_parse pkg) drawingXml"
  let ?info = "?infos ! i"
  from external_annotated [OF passes i rel ext]
  obtain annotated where ann: "annotate_all ?rels ?infos = Inr annotated"
      and len: "length annotated = length ?infos"
      and a: "annotated ! i = ?info\<lparr>fi_skip := Some ''external''\<rparr>"
    by blast
  let ?msg = "''[skip] reason=external id='' @ fi_id (annotated ! i) @ '' sheet=''
                @ js_String sheetName @ '' cell='' @ fi_cellRef (annotated ! i)"
  have msg: "skip_message ''external'' ?info sheetName = ?msg"
    by (simp add: skip_message_def a)
  have dfile: "parseDrawingFile pkg drawingRel = Inr annotated"
    using parseDrawingFile_unfold [OF target xml] ann by simp
  have sheet: "parseSheetFloatingImages pkg sheetName sheetPath st =
                 processFloatingImages pkg annotated sheetName st" for st
    by (rule parseSheetFloatingImages_unfold [OF rels drawing dfile])
  have ia: "i < length annotated" using i len by simp
  have "?info \<in> set ?infos" using i by simp
  from parseDrawingXml_fresh [OF this]
  have path: "fi_mediaPath (annotated ! i) = None" by (simp add: a)
  have step: "processFloatingImage pkg' (annotated ! i) sheetName st' =
               st'\<lparr>st_errors := st_errors st' @ [?msg]\<rparr>" for pkg' st'
    unfolding a process_external msg [unfolded a] ..
  have loop: "parseSheetFloatingImages pkg sheetName sheetPath st =
               processFloatingImages pkg (drop (Suc i) annotated) sheetName
                 ((processFloatingImages pkg (take i annotated) sheetName st)
                    \<lparr>st_errors := st_errors (processFloatingImages pkg (take i annotated) sheetName st) @
                       [?msg]\<rparr>)" for st
    unfolding sheet skipped_loop [OF ia a] msg ..
  have imgs: "st_images (parseSheetFloatingImages pkg sheetName sheetPath st) =
               st_images (processFloatingImages pkg (take i annotated @ drop (Suc i) annotated)
                            sheetName st)" for st
    unfolding sheet using skipped_frame [OF ia a] by blast
  have binds: "st_bySheet (parseSheetFloatingImages pkg sheetName sheetPath st) =
               st_bySheet (processFloatingImages pkg (take i annotated @ drop (Suc i) annotated)
                            sheetName st)" for st
    unfolding sheet using skipped_frame [OF ia a] by blast
  have "?msg \<in> set (st_errors (parseSheetFloatingImages pkg sheetName sheetPath st))" for st
    unfolding sheet using skipped_reported [OF ia a, of sheetName pkg st] msg by simp
  from parseSheets_reports [OF sheets this]
  have res: "?msg \<in> set (res_errors (parseBuffer workbook pkg options))"
    by (simp add: parseBuffer_errors [OF opts])
  from dfile len a path step loop imgs binds res show ?thesis by blast
qed

theorem external_image_skipped_witness:
  "(XStr ''Sheet1'', ''worksheets/sheet1.xml'') \<in> set (getSheetsMap demo_package)
   \<and> getSheetRelationships demo_package ''worksheets/sheet1.xml'' =
       Some [(XStr ''rId1'',
              \<lparr>rel_id = XStr ''rId1'', rel_type = XStr ''http://schemas/relationships/drawing'',
               rel_target = XStr ''../drawings/drawing1.xml'', rel_targetMode = XUndef\<rparr>)]
   \<and> findDrawingRelationship
        [(XStr ''rId1'',
          \<lparr>rel_id = XStr ''rId1'', rel_type = XStr ''http://schemas/relationships/drawing'',
           rel_target = XStr ''../drawings/drawing1.xml'', rel_targetMode = XUndef\<rparr>)] =
       Inr (Some \<lparr>rel_id = XStr ''rId1'', rel_type = XStr ''http://schemas/relationships/drawing'',
                   rel_target = XStr ''../drawings/drawing1.xml'', rel_targetMode = XUndef\<rparr>)
   \<and> read_text demo_package (''xl/'' @ normalizeTargetPath Worksheets ''../drawings/drawing1.xml'') =
       Some ''drawing1.xml''
   \<and> annotation_passes
        (drawingRelationships demo_package (normalizeTargetPath Worksheets ''../drawings/drawing1.xml''))
        (parseDrawingXml (xml_parse demo_package) ''drawing1.xml'')
   \<and> (1 :: nat) < length (parseDrawingXml (xml_parse demo_package) ''drawing1.xml'')
   \<and> map_of (drawingRelationships demo_package
                (normalizeTargetPath Worksheets ''../drawings/drawing1.xml''))
        (fi_relationshipId (parseDrawingXml (xml_parse demo_package) ''drawing1.xml'' ! 1)) =
       Some \<lparr>rel_id = XStr ''rId2'', rel_type = XStr ''http://schemas/relationships/image'',
              rel_target = XStr ''http://example.org/logo.png'', rel_targetMode = XStr ''External''\<rparr>
   \<and> is_external \<lparr>rel_id = XStr ''rId2'', rel_type = XStr ''http://schemas/relationships/image'',
              rel_target = XStr ''http://example.org/logo.png'', rel_targetMode = XStr ''External''\<rparr>
   \<and> includeImages default_options
   \<and> ''[skip] reason=external id=3 sheet=Sheet1 cell=B7''
        \<in> set (res_errors (parseBuffer demo_workbook demo_package default_options))"
proof -
  let ?drel = "\<lparr>rel_id = XStr ''rId1'', rel_type = XStr ''http://schemas/relationships/drawing'',
               rel_target = XStr ''../drawings/drawing1.xml'', rel_targetMode = XUndef\<rparr>"
  let ?rel = "\<lparr>rel_id = XStr ''rId2'', rel_type = XStr ''http://schemas/relationships/image'',
             rel_target = XStr ''http://example.org/logo.png'', rel_targetMode = XStr ''External''\<rparr>"
  have s: "(XStr ''Sheet1'', ''worksheets/sheet1.xml'') \<in> set (getSheetsMap demo_package)"
    by (simp add: demo_sheets_map)
  have t: "rel_target ?drel = XStr ''../drawings/drawing1.xml''"
    by simp
  have i: "(1 :: nat) < length (parseDrawingXml (xml_parse demo_package) ''drawing1.xml'')"
    by (simp add: demo_pkg_parse demo_infos)
  have r: "map_of (drawingRelationships demo_package
                (normalizeTargetPath Worksheets ''../drawings/drawing1.xml''))
             (fi_relationshipId (parseDrawingXml (xml_parse demo_package) ''drawing1.xml'' ! 1)) =
           Some ?rel"
    unfolding demo_drawing_relationships demo_pkg_parse demo_infos demo_rels by simp
  have e: "is_external ?rel"
    by (simp add: is_external_def str_eval)
  have o: "includeImages default_options"
    by (simp add: default_options_def)
  from external_image_skipped
         [OF s demo_sheet_rels demo_find_drawing t demo_drawing_text demo_passes i r e o,
          of demo_workbook]
  obtain annotated where
      a: "annotated ! 1 = (parseDrawingXml (xml_parse demo_package) ''drawing1.xml'' ! 1)
                             \<lparr>fi_skip := Some ''external''\<rparr>"
    and m: "(''[skip] reason=external id='' @ fi_id (annotated ! 1) @ '' sheet=''
               @ js_String (XStr ''Sheet1'') @ '' cell='' @ fi_cellRef (annotated ! 1))
              \<in> set (res_errors (parseBuffer demo_workbook demo_package default_options))"
    by blast
  have "''[skip] reason=external id='' @ fi_id (annotated ! 1) @ '' sheet=''
               @ js_String (XStr ''Sheet1'') @ '' cell='' @ fi_cellRef (annotated ! 1)
        = ''[skip] reason=external id=3 sheet=Sheet1 cell=B7''"
    unfolding a demo_pkg_parse demo_infos by simp
  with m have c: "''[skip] reason=external id=3 sheet=Sheet1 cell=B7''
        \<in> set (res_errors (parseBuffer demo_workbook demo_package default_options))"
    by simp
  show ?thesis
    apply (intro conjI)
             apply (rule s)
            apply (rule demo_sheet_rels)
           apply (rule demo_find_drawing)
          apply (rule demo_drawing_text)
         apply (rule demo_passes)
        apply (rule i)
       apply (rule r)
      apply (rule e)
     apply (rule o)
    apply (rule c)
    done
qed

text \<open>
  C5 as stated fails on two packages in which the first picture of a drawing is linked to
  a relationship with the target mode \<^verbatim>\<open>External\<close>. In the first, the relationship of the
  second picture has a number as its target: the annotation loop throws, the \<^verbatim>\<open>catch\<close> of
  \<^verbatim>\<open>parseSheetFloatingImages\<close> swallows the error and the parse result has no diagnostic
  at all. In the second, the external relationship has an empty target:
  \<^verbatim>\<open>parseRelationships\<close> drops the element and the diagnostic is
  \<^verbatim>\<open>[skip] reason=missing_relationship ...\<close>.
\<close>

theorem external_image_counterexample:
  "map_of (drawingRelationships (skip_package numeric_target_rels)
             (normalizeTargetPath Worksheets ''../drawings/drawing1.xml''))
      (fi_relationshipId (parseDrawingXml (xml_parse (skip_package numeric_target_rels))
                            ''drawing1.xml'' ! 0)) =
     Some \<lparr>rel_id = XStr ''rId2'', rel_type = XStr ''http://schemas/relationships/image'',
            rel_target = XStr ''http://example.org/logo.png'', rel_targetMode = XStr ''External''\<rparr>
   \<and> res_errors (parseBuffer demo_workbook (skip_package numeric_target_rels) default_options) = []
   \<and> getp (relationship_elements empty_target_rels ! 1) ''Id'' = XStr ''rId2''
   \<and> getp (relationship_elements empty_target_rels ! 1) ''TargetMode'' = XStr ''External''
   \<and> fi_relationshipId (parseDrawingXml (xml_parse (skip_package empty_target_rels))
                           ''drawing1.xml'' ! 0) = XStr ''rId2''
   \<and> res_errors (parseBuffer demo_workbook (skip_package empty_target_rels) default_options) =
       [''[skip] reason=missing_relationship id=3 sheet=Sheet1 cell=B7'']"
proof -
  have o: "includeImages default_options"
    by (simp add: default_options_def)
  have 1: "map_of (drawingRelationships (skip_package numeric_target_rels)
             (normalizeTargetPath Worksheets ''../drawings/drawing1.xml''))
      (fi_relationshipId (parseDrawingXml (xml_parse (skip_package numeric_target_rels))
                            ''drawing1.xml'' ! 0)) =
     Some \<lparr>rel_id = XStr ''rId2'', rel_type = XStr ''http://schemas/relationships/image'',
            rel_target = XStr ''http://example.org/logo.png'', rel_targetMode = XStr ''External''\<rparr>"
    unfolding numeric_relationships skip_infos by simp
  have 2: "res_errors (parseBuffer demo_workbook (skip_package numeric_target_rels) default_options) = []"
    by (simp add: parseBuffer_errors [OF o] skip_sheets_map skip_named numeric_sheet)
  have 3: "getp (relationship_elements empty_target_rels ! 1) ''Id'' = XStr ''rId2''"
    by (simp add: relationship_elements_def empty_target_rels_def external_rel_def as_list_def)
  have 4: "getp (relationship_elements empty_target_rels ! 1) ''TargetMode'' = XStr ''External''"
    by (simp add: relationship_elements_def empty_target_rels_def external_rel_def as_list_def)
  have 5: "fi_relationshipId (parseDrawingXml (xml_parse (skip_package empty_target_rels))
                           ''drawing1.xml'' ! 0) = XStr ''rId2''"
    unfolding skip_infos by simp
  have 6: "res_errors (parseBuffer demo_workbook (skip_package empty_target_rels) default_options) =
       [''[skip] reason=missing_relationship id=3 sheet=Sheet1 cell=B7'']"
    by (simp add: parseBuffer_errors [OF o] skip_sheets_map skip_named empty_sheet)
  from 1 2 3 4 5 6 show ?thesis by (intro conjI)
qed

section \<open>Drawings: the id of a floating image\<close>





section \<open>The images map\<close>
















section \<open>Cell references: encoding and decoding\<close>

lemma of_char_char_of_small: "n < 256 \<Longrightarrow> (of_char (char_of n :: char) :: nat) = n"
  by (simp add: of_char_of)

lemma decode_chars_append:
  "decode_chars (xs @ ys) RC = decode_chars ys (decode_chars xs RC)"
  by (induction xs arbitrary: RC) (auto simp: Let_def)

lemma decode_chars_letter:
  "k < 26 \<Longrightarrow> decode_chars [char_of (65 + k)] (R, C) = (R, 26 * C + (k + 1))"
  by (simp add: of_char_char_of_small Let_def)

lemma decode_chars_digit:
  "k < 10 \<Longrightarrow> decode_chars [char_of (48 + k)] (R, C) = (10 * R + k, C)"
  by (simp add: of_char_char_of_small Let_def)

lemma decode_chars_encode_col: "decode_chars (encode_col n) (R, 0) = (R, n)"
proof (induction n rule: encode_col.induct)
  case (1 n)
  show ?case
  proof (cases "n = 0")
    case True
    then show ?thesis by (simp add: encode_col.simps)
  next
    case False
    have e: "encode_col n = encode_col ((n - 1) div 26) @ [char_of (65 + (n - 1) mod 26)]"
      using False by (subst encode_col.simps) simp
    have "decode_chars (encode_col n) (R, 0) =
            decode_chars [char_of (65 + (n - 1) mod 26)]
              (decode_chars (encode_col ((n - 1) div 26)) (R, 0))"
      by (simp only: e decode_chars_append)
    also have "\<dots> = decode_chars [char_of (65 + (n - 1) mod 26)] (R, (n - 1) div 26)"
      using 1 False by simp
    also have "\<dots> = (R, 26 * ((n - 1) div 26) + ((n - 1) mod 26 + 1))"
      by (rule decode_chars_letter) simp
    also have "\<dots> = (R, n)" using False by simp
    finally show ?thesis .
  qed
qed

lemma decode_chars_digits_of: "decode_chars (digits_of m) (0, C) = (m, C)"
proof (induction m rule: digits_of.induct)
  case (1 m)
  show ?case
  proof (cases "m < 10")
    case True
    have "digits_of m = [char_of (48 + m)]"
      using True by (subst digits_of.simps) simp
    then show ?thesis using True by (simp only: decode_chars_digit) simp
  next
    case False
    have e: "digits_of m = digits_of (m div 10) @ [char_of (48 + m mod 10)]"
      using False by (subst digits_of.simps) simp
    have "decode_chars (digits_of m) (0, C) =
            decode_chars [char_of (48 + m mod 10)] (decode_chars (digits_of (m div 10)) (0, C))"
      by (simp only: e decode_chars_append)
    also have "\<dots> = decode_chars [char_of (48 + m mod 10)] (m div 10, C)"
      using 1 False by simp
    also have "\<dots> = (10 * (m div 10) + m mod 10, C)"
      by (rule decode_chars_digit) simp
    also have "\<dots> = (m, C)" by simp
    finally show ?thesis .
  qed
qed

lemma decode_encode_cell:
  assumes "- 1 \<le> r" "- 1 \<le> c"
  shows "decode_cell (encode_cell r c) = (r, c)"
proof -
  have "show_int (r + 1) = digits_of (nat (r + 1))"
    using assms by (simp add: show_int_def)
  then have "decode_chars (encode_cell r c) (0, 0) = (nat (r + 1), nat (c + 1))"
    by (simp add: encode_cell_def decode_chars_append decode_chars_encode_col
          decode_chars_digits_of)
  then show ?thesis using assms by (simp add: decode_cell_def)
qed






section \<open>The scan of a sheet\<close>

lemma card_new_ids:
  "finite A \<Longrightarrow> card (insert x A - S) = (if x \<in> S \<or> x \<in> A then card (A - S) else Suc (card (A - S)))"
  by (auto simp: insert_Diff_if card_insert_if)

lemma countFloating_closed:
  "countFloating cellRef ids (rowSeen, rowData, totalImages) =
     (let k = card (set ids - set rowSeen)
      in (fst (countFloating cellRef ids (rowSeen, rowData, totalImages)),
          rowData\<lparr>rd_imageCount := rd_imageCount rowData + k,
                  rd_imageCells := rd_imageCells rowData @ replicate k cellRef\<rparr>,
          totalImages + k))
   \<and> set (fst (countFloating cellRef ids (rowSeen, rowData, totalImages))) = set rowSeen \<union> set ids"
proof (induction ids arbitrary: rowSeen rowData totalImages)
  case Nil
  show ?case by simp
next
  case (Cons fid fids)
  show ?case
  proof (cases "fid \<in> set rowSeen")
    case True
    then have "set (fid # fids) - set rowSeen = set fids - set rowSeen" by auto
    with True Cons.IH [of rowSeen rowData totalImages] show ?thesis
      by (auto simp: Let_def)
  next
    case False
    let ?rd = "rowData\<lparr>rd_imageCount := rd_imageCount rowData + 1,
                       rd_imageCells := rd_imageCells rowData @ [cellRef]\<rparr>"
    have c: "card (set (fid # fids) - set rowSeen) = Suc (card (set fids - set (rowSeen @ [fid])))"
    proof -
      have "set (fid # fids) - set rowSeen = insert fid (set fids - set (rowSeen @ [fid]))"
        using False by auto
      moreover have "fid \<notin> set fids - set (rowSeen @ [fid])" by simp
      ultimately show ?thesis by simp
    qed
    from False Cons.IH [of "rowSeen @ [fid]" ?rd "totalImages + 1"] c show ?thesis
      by (auto simp: Let_def replicate_app_Cons_same)
  qed
qed

lemma namedImageHit_None [simp]: "\<not> namedImageHit None images"
  by (simp add: namedImageHit_def isImageCell_def)

lemma scanCell_closed:
  "scanCell worksheet images options fl r c (rowSeen, rowData, totalImages) =
     (let ids = floatingAt fl r c;
          k = card (set ids - set rowSeen);
          cello = cellAt worksheet r c;
          h = (if namedImageHit cello images then 1 else 0)
      in (fst (scanCell worksheet images options fl r c (rowSeen, rowData, totalImages)),
          rowData\<lparr>rd_cells := rd_cells rowData @
                      (if cello \<noteq> None \<or> includeEmptyColumns options
                       then [cellWithFloating cello (encode_cell r c) images ids] else []),
                  rd_imageCount := rd_imageCount rowData + k + h,
                  rd_imageCells := rd_imageCells rowData @ replicate k (encode_cell r c)
                                     @ replicate h (encode_cell r c)\<rparr>,
          totalImages + k + h))
   \<and> set (fst (scanCell worksheet images options fl r c (rowSeen, rowData, totalImages))) =
       set rowSeen \<union> set (floatingAt fl r c)"
proof -
  let ?ids = "floatingAt fl r c" and ?ref = "encode_cell r c"
  obtain seen' where cf:
    "countFloating ?ref ?ids (rowSeen, rowData, totalImages) =
       (seen', rowData\<lparr>rd_imageCount := rd_imageCount rowData + card (set ?ids - set rowSeen),
                  rd_imageCells := rd_imageCells rowData @ replicate (card (set ?ids - set rowSeen)) ?ref\<rparr>,
        totalImages + card (set ?ids - set rowSeen))"
    "set seen' = set rowSeen \<union> set ?ids"
    using countFloating_closed [of ?ref ?ids rowSeen rowData totalImages]
    by (metis (no_types, lifting))
  show ?thesis
    unfolding scanCell_def Let_def
    by (simp add: cf floatingAt_def [symmetric] cellAt_def [symmetric])
qed

lemma card_union_minus:
  assumes "finite A" "finite B"
  shows "card (A - S) + card (B - (S \<union> A)) = card ((A \<union> B) - S)"
proof -
  have "(A \<union> B) - S = (A - S) \<union> (B - (S \<union> A))" by auto
  moreover have "(A - S) \<inter> (B - (S \<union> A)) = {}" by auto
  ultimately show ?thesis using assms by (simp add: card_Un_disjoint)
qed

lemma fold_scanCell:
  "fold (scanCell worksheet images options fl r) cs (rowSeen, rowData, totalImages) =
             (rowSeen', rowData', totalImages') \<Longrightarrow>
   set rowSeen' = set rowSeen \<union> (\<Union>c\<in>set cs. set (floatingAt fl r c))
   \<and> rd_imageCount rowData' =
           rd_imageCount rowData + card ((\<Union>c\<in>set cs. set (floatingAt fl r c)) - set rowSeen)
             + length (filter (\<lambda>c. namedImageHit (cellAt worksheet r c) images) cs)
   \<and> totalImages' =
           totalImages + card ((\<Union>c\<in>set cs. set (floatingAt fl r c)) - set rowSeen)
             + length (filter (\<lambda>c. namedImageHit (cellAt worksheet r c) images) cs)
   \<and> rd_rowNumber rowData' = rd_rowNumber rowData
   \<and> rd_cells rowData' =
           rd_cells rowData @
           concat (map (\<lambda>c. if cellAt worksheet r c \<noteq> None \<or> includeEmptyColumns options
                              then [cellWithFloating (cellAt worksheet r c) (encode_cell r c) images
                                      (floatingAt fl r c)]
                              else []) cs)
   \<and> set (rd_imageCells rowData) \<subseteq> set (rd_imageCells rowData')
   \<and> (\<forall>fid \<in> (\<Union>c\<in>set cs. set (floatingAt fl r c)) - set rowSeen.
           \<exists>c \<in> set cs. fid \<in> set (floatingAt fl r c)
                        \<and> encode_cell r c \<in> set (rd_imageCells rowData'))
   \<and> rd_imageCount rowData' + length (rd_imageCells rowData) =
       rd_imageCount rowData + length (rd_imageCells rowData')"
proof (induction cs arbitrary: rowSeen rowData totalImages)
  case Nil
  then show ?case by simp
next
  case (Cons c cs)
  let ?ids = "floatingAt fl r c"
  let ?k = "card (set ?ids - set rowSeen)"
  let ?h = "if namedImageHit (cellAt worksheet r c) images then 1 else (0::nat)"
  let ?U = "\<Union>c\<in>set cs. set (floatingAt fl r c)"
  obtain s1 rd1 t1 where st1:
    "scanCell worksheet images options fl r c (rowSeen, rowData, totalImages) = (s1, rd1, t1)"
    by (metis prod_cases3)
  from scanCell_closed [of worksheet images options fl r c rowSeen rowData totalImages] st1
  have rd1: "rd1 = rowData\<lparr>rd_cells := rd_cells rowData @
                      (if cellAt worksheet r c \<noteq> None \<or> includeEmptyColumns options
                       then [cellWithFloating (cellAt worksheet r c) (encode_cell r c) images ?ids]
                       else []),
                  rd_imageCount := rd_imageCount rowData + ?k + ?h,
                  rd_imageCells := rd_imageCells rowData @ replicate ?k (encode_cell r c)
                                     @ replicate ?h (encode_cell r c)\<rparr>"
    and t1: "t1 = totalImages + ?k + ?h"
    and s1: "set s1 = set rowSeen \<union> set ?ids"
    by (simp_all add: Let_def)
  have f: "fold (scanCell worksheet images options fl r) cs (s1, rd1, t1) =
             (rowSeen', rowData', totalImages')"
    using Cons.prems st1 by simp
  note ih = Cons.IH [OF f]
  have cu: "?k + card (?U - set s1) = card ((\<Union>c\<in>set (c # cs). set (floatingAt fl r c)) - set rowSeen)"
    using card_union_minus [of "set ?ids" ?U "set rowSeen"] s1 by simp
  have p1: "set rowSeen' = set rowSeen \<union> (\<Union>c\<in>set (c # cs). set (floatingAt fl r c))"
    using ih s1 by auto
  have p2: "rd_imageCount rowData' =
           rd_imageCount rowData + card ((\<Union>c\<in>set (c # cs). set (floatingAt fl r c)) - set rowSeen)
             + length (filter (\<lambda>c. namedImageHit (cellAt worksheet r c) images) (c # cs))"
    using ih cu by (simp add: rd1)
  have p3: "totalImages' =
           totalImages + card ((\<Union>c\<in>set (c # cs). set (floatingAt fl r c)) - set rowSeen)
             + length (filter (\<lambda>c. namedImageHit (cellAt worksheet r c) images) (c # cs))"
    using ih cu by (simp add: t1)
  have p4: "rd_rowNumber rowData' = rd_rowNumber rowData"
    using ih by (simp add: rd1)
  have p5: "rd_cells rowData' =
           rd_cells rowData @
           concat (map (\<lambda>c. if cellAt worksheet r c \<noteq> None \<or> includeEmptyColumns options
                              then [cellWithFloating (cellAt worksheet r c) (encode_cell r c) images
                                      (floatingAt fl r c)]
                              else []) (c # cs))"
    using ih by (simp add: rd1)
  have m1: "set (rd_imageCells rd1) \<subseteq> set (rd_imageCells rowData')"
    using ih by blast
  have p6: "set (rd_imageCells rowData) \<subseteq> set (rd_imageCells rowData')"
    using m1 by (auto simp: rd1)
  have p7: "\<forall>fid \<in> (\<Union>c\<in>set (c # cs). set (floatingAt fl r c)) - set rowSeen.
           \<exists>c' \<in> set (c # cs). fid \<in> set (floatingAt fl r c')
                        \<and> encode_cell r c' \<in> set (rd_imageCells rowData')"
  proof
    fix fid
    assume fid: "fid \<in> (\<Union>c\<in>set (c # cs). set (floatingAt fl r c)) - set rowSeen"
    show "\<exists>c' \<in> set (c # cs). fid \<in> set (floatingAt fl r c')
                      \<and> encode_cell r c' \<in> set (rd_imageCells rowData')"
    proof (cases "fid \<in> set ?ids")
      case True
      with fid have "set ?ids - set rowSeen \<noteq> {}" by auto
      then have "encode_cell r c \<in> set (replicate ?k (encode_cell r c))" by auto
      then have "encode_cell r c \<in> set (rd_imageCells rd1)" unfolding rd1 by simp
      with m1 have "encode_cell r c \<in> set (rd_imageCells rowData')" by blast
      with True show ?thesis by auto
    next
      case False
      with fid s1 have "fid \<in> ?U - set s1" by auto
      with ih show ?thesis by auto
    qed
  qed
  have p8: "rd_imageCount rowData' + length (rd_imageCells rowData) =
       rd_imageCount rowData + length (rd_imageCells rowData')"
    using ih by (simp add: rd1)
  from p1 p2 p3 p4 p5 p6 p7 p8 show ?case by (intro conjI)
qed

lemma fold_scanCell_row:
  "set seenA = set seenB \<Longrightarrow>
     fst (snd (fold (scanCell worksheet images options fl r) cs (seenA, rowData, totalA))) =
     fst (snd (fold (scanCell worksheet images options fl r) cs (seenB, rowData, totalB)))"
proof (induction cs arbitrary: seenA seenB rowData totalA totalB)
  case Nil
  show ?case by simp
next
  case (Cons c cs)
  obtain sA rdA tA where a:
    "scanCell worksheet images options fl r c (seenA, rowData, totalA) = (sA, rdA, tA)"
    by (metis prod_cases3)
  obtain sB rdB tB where b:
    "scanCell worksheet images options fl r c (seenB, rowData, totalB) = (sB, rdB, tB)"
    by (metis prod_cases3)
  from scanCell_closed [of worksheet images options fl r c seenA rowData totalA] a
       scanCell_closed [of worksheet images options fl r c seenB rowData totalB] b Cons.prems
  have "rdA = rdB" and "set sA = set sB"
    by (simp_all add: Let_def)
  with Cons.IH [of sA sB rdA tA tB] a b show ?case by simp
qed

lemma newRow_fields [simp]:
  "rd_rowNumber (newRow worksheet r) = r + 1"
  "rd_imageCount (newRow worksheet r) = 0"
  "rd_cells (newRow worksheet r) = []"
  "rd_imageCells (newRow worksheet r) = []"
  by (simp_all add: newRow_def Let_def split: option.split)

lemma scannedRow_props:
  "rd_rowNumber (scannedRow worksheet images options fl startCol endCol r) = r + 1"
  "rd_imageCount (scannedRow worksheet images options fl startCol endCol r) =
     card (\<Union>c\<in>{startCol..endCol}. set (floatingAt fl r c))
       + length (filter (\<lambda>c. namedImageHit (cellAt worksheet r c) images) [startCol..endCol])"
  "rd_cells (scannedRow worksheet images options fl startCol endCol r) =
     concat (map (\<lambda>c. if cellAt worksheet r c \<noteq> None \<or> includeEmptyColumns options
                        then [cellWithFloating (cellAt worksheet r c) (encode_cell r c) images
                                (floatingAt fl r c)]
                        else []) [startCol..endCol])"
  "\<forall>fid \<in> (\<Union>c\<in>{startCol..endCol}. set (floatingAt fl r c)).
     \<exists>c \<in> {startCol..endCol}. fid \<in> set (floatingAt fl r c)
        \<and> encode_cell r c \<in> set (rd_imageCells (scannedRow worksheet images options fl startCol endCol r))"
  "rd_imageCount (scannedRow worksheet images options fl startCol endCol r) =
     length (rd_imageCells (scannedRow worksheet images options fl startCol endCol r))"
proof -
  obtain s rd t where f:
    "fold (scanCell worksheet images options fl r) [startCol..endCol] ([], newRow worksheet r, 0) = (s, rd, t)"
    by (metis prod_cases3)
  then have rd: "scannedRow worksheet images options fl startCol endCol r = rd"
    by (simp add: scannedRow_def scanRow_def)
  note p = fold_scanCell [OF f]
  show "rd_rowNumber (scannedRow worksheet images options fl startCol endCol r) = r + 1"
    using p by (simp add: rd)
  show "rd_imageCount (scannedRow worksheet images options fl startCol endCol r) =
     card (\<Union>c\<in>{startCol..endCol}. set (floatingAt fl r c))
       + length (filter (\<lambda>c. namedImageHit (cellAt worksheet r c) images) [startCol..endCol])"
    using p by (simp add: rd)
  show "rd_cells (scannedRow worksheet images options fl startCol endCol r) =
     concat (map (\<lambda>c. if cellAt worksheet r c \<noteq> None \<or> includeEmptyColumns options
                        then [cellWithFloating (cellAt worksheet r c) (encode_cell r c) images
                                (floatingAt fl r c)]
                        else []) [startCol..endCol])"
    using p by (simp add: rd)
  show "\<forall>fid \<in> (\<Union>c\<in>{startCol..endCol}. set (floatingAt fl r c)).
     \<exists>c \<in> {startCol..endCol}. fid \<in> set (floatingAt fl r c)
        \<and> encode_cell r c \<in> set (rd_imageCells (scannedRow worksheet images options fl startCol endCol r))"
    using p by (simp add: rd)
  show "rd_imageCount (scannedRow worksheet images options fl startCol endCol r) =
          length (rd_imageCells (scannedRow worksheet images options fl startCol endCol r))"
    using p by (simp add: rd)
qed

lemma scanRow_result:
  "scanRow worksheet images options fl startCol endCol r totalImages =
     (fst (scanRow worksheet images options fl startCol endCol r totalImages),
      scannedRow worksheet images options fl startCol endCol r,
      totalImages + rd_imageCount (scannedRow worksheet images options fl startCol endCol r))"
proof -
  obtain s rd t where f:
    "fold (scanCell worksheet images options fl r) [startCol..endCol]
       ([], newRow worksheet r, totalImages) = (s, rd, t)"
    by (metis prod_cases3)
  have rd: "rd = scannedRow worksheet images options fl startCol endCol r"
    using fold_scanCell_row [of "[]" "[]" worksheet images options fl r "[startCol..endCol]"
            "newRow worksheet r" totalImages 0] f
    by (simp add: scannedRow_def scanRow_def)
  from fold_scanCell [OF f] have "t = totalImages + rd_imageCount rd" by simp
  with f rd show ?thesis by (simp add: scanRow_def)
qed

lemma fold_rowStep:
  "fold (rowStep worksheet images options fl startCol endCol) rs (rows, totalImages, rowsWithImages) =
     (rows @ filter (keepRow options) (map (scannedRow worksheet images options fl startCol endCol) rs),
      totalImages + sum_list (map (\<lambda>r. rd_imageCount (scannedRow worksheet images options fl startCol endCol r)) rs),
      rowsWithImages + length (filter (\<lambda>r. 0 < rd_imageCount (scannedRow worksheet images options fl startCol endCol r)) rs))"
proof (induction rs arbitrary: rows totalImages rowsWithImages)
  case Nil
  show ?case by simp
next
  case (Cons r rs)
  have "rowStep worksheet images options fl startCol endCol r (rows, totalImages, rowsWithImages) =
          (if keepRow options (scannedRow worksheet images options fl startCol endCol r)
           then rows @ [scannedRow worksheet images options fl startCol endCol r] else rows,
           totalImages + rd_imageCount (scannedRow worksheet images options fl startCol endCol r),
           if 0 < rd_imageCount (scannedRow worksheet images options fl startCol endCol r)
           then rowsWithImages + 1 else rowsWithImages)"
    unfolding rowStep_def
    by (subst scanRow_result) simp
  then show ?case by (simp add: Cons.IH)
qed

lemma parseWorksheet_scan:
  "wd_rows (parseWorksheet worksheet sheetName images options fl) =
     filter (keepRow options) (scannedRows worksheet images options fl)"
  "wd_totalImages (parseWorksheet worksheet sheetName images options fl) =
     sum_list (map rd_imageCount (scannedRows worksheet images options fl))"
  "wd_rowsWithImages (parseWorksheet worksheet sheetName images options fl) =
     length (filter (\<lambda>rd. 0 < rd_imageCount rd) (scannedRows worksheet images options fl))"
  by (simp_all add: parseWorksheet_def scanSheet_def scannedRows_def fold_rowStep comp_def
        filter_map split: prod.split)


section \<open>Totals of a sheet\<close>

lemma dispimg_match:
  "match_DISPIMG (''=DISPIMG('' @ [CHR 0x22] @ ''img1'' @ [CHR 0x22] @ '',1)'') = Some ''img1''"
  "match_DISPIMG (''_xlfn.DISPIMG('' @ [CHR 0x22] @ ''img1'' @ [CHR 0x22] @ '',1)'') = Some ''img1''"
  "match_DISPIMG ''DISPIMG'' = None"
  by simp_all

lemma sum_list_filter_le:
  "sum_list (map f (filter P xs)) \<le> (sum_list (map f xs) :: nat)"
  by (induction xs) simp_all

text \<open>
  C3, as the code has it. A sheet's \<^verbatim>\<open>totalImages\<close> is the sum of \<^verbatim>\<open>imageCount\<close> over all
  the rows of the scan range, each counted by itself, whether the row is emitted or not;
  the emitted rows are the scanned rows that pass the row filter. So the sum over the
  emitted rows never exceeds \<^verbatim>\<open>totalImages\<close>, and equals it when \<^verbatim>\<open>includeEmptyRows\<close> is
  set.
\<close>

theorem totalImages_sums_scanned_rows:
  "wd_totalImages (parseWorksheet worksheet sheetName images options fl) =
     sum_list (map rd_imageCount (scannedRows worksheet images options fl))
   \<and> wd_rows (parseWorksheet worksheet sheetName images options fl) =
       filter (keepRow options) (scannedRows worksheet images options fl)
   \<and> sum_list (map rd_imageCount (wd_rows (parseWorksheet worksheet sheetName images options fl)))
       \<le> wd_totalImages (parseWorksheet worksheet sheetName images options fl)
   \<and> (includeEmptyRows options \<longrightarrow>
        wd_totalImages (parseWorksheet worksheet sheetName images options fl) =
          sum_list (map rd_imageCount (wd_rows (parseWorksheet worksheet sheetName images options fl))))"
  by (simp add: parseWorksheet_scan sum_list_filter_le keepRow_def)

theorem totalImages_sums_scanned_rows_witness:
  "includeEmptyRows (default_options\<lparr>includeEmptyRows := True\<rparr>)
   \<and> wd_totalImages (parseWorksheet demo_sheet ''Sheet1'' demo_images
         (default_options\<lparr>includeEmptyRows := True\<rparr>) demo_floating) =
       sum_list (map rd_imageCount
         (wd_rows (parseWorksheet demo_sheet ''Sheet1'' demo_images
            (default_options\<lparr>includeEmptyRows := True\<rparr>) demo_floating)))"
proof -
  have h: "includeEmptyRows (default_options\<lparr>includeEmptyRows := True\<rparr>)" by simp
  show ?thesis
    apply (intro conjI)
     apply (rule h)
    apply (rule totalImages_sums_scanned_rows
             [THEN conjunct2, THEN conjunct2, THEN conjunct2, THEN mp, OF h])
    done
qed

text \<open>
  C3 as stated fails: a sheet without cells whose cell \<^verbatim>\<open>A1\<close> anchors one floating image
  has \<^verbatim>\<open>totalImages = 1\<close> and, under the default options, no emitted row at all.
\<close>

theorem totalImages_counterexample:
  "wd_totalImages (parseWorksheet bare_sheet ''Sheet1'' [] default_options [(''A1'', [''img1''])]) = 1
   \<and> sum_list (map rd_imageCount
         (wd_rows (parseWorksheet bare_sheet ''Sheet1'' [] default_options [(''A1'', [''img1''])]))) = 0"
  by (simp add: sheet_eval cell_eval str_eval bare_sheet_def no_cells_def no_heights_def
        default_options_def)



section \<open>Image counts of a row\<close>

lemma twin_eval:
  "wd_rows (parseWorksheet twin_sheet ''Sheet1'' demo_images default_options []) =
     [\<lparr>rd_rowNumber = 1, rd_height = None, rd_customHeight = None,
       rd_cells =
         [\<lparr>cd_ref = ''A1'', cd_value = ''=DISPIMG('' @ [CHR 0x22] @ ''img1'' @ [CHR 0x22] @ '',1)'',
           cd_type = TImage, cd_styleId = None, cd_image = Some demo_image,
           cd_formula = None\<rparr>,
          \<lparr>cd_ref = ''B1'', cd_value = ''=DISPIMG('' @ [CHR 0x22] @ ''img1'' @ [CHR 0x22] @ '',1)'',
           cd_type = TImage, cd_styleId = None, cd_image = Some demo_image,
           cd_formula = None\<rparr>],
       rd_imageCount = 2, rd_imageCells = [''A1'', ''B1'']\<rparr>]"
  by (simp add: sheet_eval cell_eval str_eval twin_sheet_def dispimg_cell_def no_heights_def
        default_options_def demo_images_def)

text \<open>
  C2, as the code has it. Every emitted row is the record of one row \<open>r\<close> of the scan
  range, and its \<^verbatim>\<open>imageCount\<close> is the number of distinct floating image ids bound to the
  cells of that row within the scanned columns, plus the number of scanned cells of
  the row whose own \<^verbatim>\<open>DISPIMG\<close> id is a key of \<^verbatim>\<open>images\<close>: floating ids are counted as a
  set, named cell images once for every cell that refers to one. The count is also the
  length of the row's \<^verbatim>\<open>imageCells\<close> list.
\<close>

theorem row_imageCount:
  assumes "row \<in> set (wd_rows (parseWorksheet worksheet sheetName images options fl))"
      and "scanBounds worksheet fl = (startRow, startCol, endRow, endCol)"
  shows "\<exists>r. startRow \<le> r \<and> r \<le> endRow \<and> rd_rowNumber row = r + 1
           \<and> rd_imageCount row =
               card (\<Union>c\<in>{startCol..endCol}. set (floatingAt fl r c))
                 + length (filter (\<lambda>c. namedImageHit (cellAt worksheet r c) images)
                             [startCol..endCol])
           \<and> rd_imageCount row = length (rd_imageCells row)"
proof -
  from assms obtain r where r: "startRow \<le> r" "r \<le> endRow"
      "row = scannedRow worksheet images options fl startCol endCol r"
    by (auto simp: parseWorksheet_scan scannedRows_def)
  show ?thesis
    using r scannedRow_props(1,2,5) [of worksheet images options fl startCol endCol r]
    by auto
qed

theorem row_imageCount_witness:
  "hd (wd_rows (parseWorksheet twin_sheet ''Sheet1'' demo_images default_options []))
     \<in> set (wd_rows (parseWorksheet twin_sheet ''Sheet1'' demo_images default_options []))
   \<and> scanBounds twin_sheet [] = (0, 0, 0, 1)
   \<and> (\<exists>r. 0 \<le> r \<and> r \<le> 0
         \<and> rd_rowNumber (hd (wd_rows (parseWorksheet twin_sheet ''Sheet1'' demo_images default_options []))) = r + 1
         \<and> rd_imageCount (hd (wd_rows (parseWorksheet twin_sheet ''Sheet1'' demo_images default_options []))) =
               card (\<Union>c\<in>{0..1}. set (floatingAt [] r c))
                 + length (filter (\<lambda>c. namedImageHit (cellAt twin_sheet r c) demo_images) [0..1])
         \<and> rd_imageCount (hd (wd_rows (parseWorksheet twin_sheet ''Sheet1'' demo_images default_options []))) =
             length (rd_imageCells (hd (wd_rows (parseWorksheet twin_sheet ''Sheet1'' demo_images default_options [])))))"
proof -
  have h: "hd (wd_rows (parseWorksheet twin_sheet ''Sheet1'' demo_images default_options []))
     \<in> set (wd_rows (parseWorksheet twin_sheet ''Sheet1'' demo_images default_options []))"
    by (simp add: twin_eval)
  have b: "scanBounds twin_sheet [] = (0, 0, 0, 1)"
    by (simp add: scanBounds_def declaredRange_def twin_sheet_def str_eval)
  show ?thesis
    apply (intro conjI)
      apply (rule h)
     apply (rule b)
    apply (rule row_imageCount [OF h b])
    done
qed

text \<open>
  C2 as stated fails: in a row whose two cells both refer to the named image \<^verbatim>\<open>img1\<close>,
  one distinct id is observed and \<^verbatim>\<open>imageCount\<close> is 2.
\<close>

theorem row_imageCount_counterexample:
  "extractImageIdFromCell (ws_cells twin_sheet ''A1'') = Some ''img1''
   \<and> extractImageIdFromCell (ws_cells twin_sheet ''B1'') = Some ''img1''
   \<and> map rd_imageCount (wd_rows (parseWorksheet twin_sheet ''Sheet1'' demo_images default_options []))
       = [2]
   \<and> map rd_imageCells (wd_rows (parseWorksheet twin_sheet ''Sheet1'' demo_images default_options []))
       = [[''A1'', ''B1'']]"
  by (simp add: twin_eval)
     (simp add: cell_eval twin_sheet_def dispimg_cell_def)


section \<open>The reported dimension\<close>




section \<open>Named cell images in a cell\<close>

lemma parseCell_image:
  "cd_type (parseCell (Some cell) cellRef images) =
     (if v_has_DISPIMG cell \<or> f_has_DISPIMG cell then TImage
      else if cell_t cell = ''s'' then TString
      else if cell_t cell = ''n'' then TNumber
      else if cell_f cell \<noteq> None \<and> cell_f cell \<noteq> Some [] then TFormula
      else TString)"
  "cd_image (parseCell (Some cell) cellRef images) =
     (if v_has_DISPIMG cell
      then (case match_DISPIMG (v_text cell) of
              None \<Rightarrow> None
            | Some imageId \<Rightarrow> map_of images (XStr imageId))
      else if f_has_DISPIMG cell
      then (case match_DISPIMG (f_text cell) of
              None \<Rightarrow> None
            | Some imageId \<Rightarrow> map_of images (XStr imageId))
      else None)"
  by (simp_all add: parseCell_def attach_image_def Let_def split: option.split)

lemma parseCell_scenario_A:
  "cd_type (parseCell (Some dispimg_cell) ''B2'' demo_images) = TImage"
  "map_option ci_id (cd_image (parseCell (Some dispimg_cell) ''B2'' demo_images)) = Some (XStr ''img1'')"
  by (simp_all add: parseCell_image v_has_DISPIMG_def f_has_DISPIMG_def v_text_def f_text_def
        dispimg_cell_def demo_images_def demo_image_def)

text \<open>
  C9 on a cell whose value mentions \<^verbatim>\<open>DISPIMG\<close> without the call while its formula is
  \<^verbatim>\<open>_xlfn.DISPIMG("img1",1)\<close> and \<^verbatim>\<open>img1\<close> is a key of \<^verbatim>\<open>images\<close>: \<^verbatim>\<open>parseCell\<close> marks the
  cell as an image but attaches none, because it searches the value alone once the value
  contains \<^verbatim>\<open>DISPIMG\<close>; \<^verbatim>\<open>extractImageIdFromCell\<close>, which prefers the formula, finds
  \<^verbatim>\<open>img1\<close> in the same cell.
\<close>

theorem parseCell_value_shadows_formula:
  "cell_v shadow_cell = Some (VStr ''DISPIMG'')
   \<and> match_DISPIMG (f_text shadow_cell) = Some ''img1''
   \<and> map_of demo_images (XStr ''img1'') = Some demo_image
   \<and> cd_type (parseCell (Some shadow_cell) ''B2'' demo_images) = TImage
   \<and> cd_image (parseCell (Some shadow_cell) ''B2'' demo_images) = None
   \<and> extractImageIdFromCell (Some shadow_cell) = Some ''img1''"
  by (simp add: parseCell_image cell_eval shadow_cell_def demo_images_def)


section \<open>The scan range and the anchor rows\<close>

lemma Min_insert_min:
  "finite S \<Longrightarrow> Min (insert (min x y) S) = Min (insert x (insert y (S :: int set)))"
  by (cases "S = {}") (simp_all add: min.assoc)

lemma Max_insert_max:
  "finite S \<Longrightarrow> Max (insert (max x y) S) = Max (insert x (insert y (S :: int set)))"
  by (cases "S = {}") (simp_all add: max.assoc)

lemma expandBounds_exact:
  "expandBounds ks (startRow, startCol, endRow, endCol) =
     (Min (insert startRow ((fst \<circ> decode_cell) ` set ks)),
      Min (insert startCol ((snd \<circ> decode_cell) ` set ks)),
      Max (insert endRow ((fst \<circ> decode_cell) ` set ks)),
      Max (insert endCol ((snd \<circ> decode_cell) ` set ks)))"
proof (induction ks arbitrary: startRow startCol endRow endCol)
  case Nil
  show ?case by simp
next
  case (Cons k ks)
  obtain r c where d: "decode_cell k = (r, c)" by (cases "decode_cell k")
  have m: "(if r < startRow then r else startRow) = min r startRow"
          "(if c < startCol then c else startCol) = min c startCol"
          "(if r > endRow then r else endRow) = max r endRow"
          "(if c > endCol then c else endCol) = max c endCol"
    by auto
  show ?case
    by (simp add: d m Cons.IH Min_insert_min Max_insert_max insert_commute del: Min_insert Max_insert)
qed

lemma cellWithFloating_value:
  "cd_value (cellWithFloating cello cellRef images ids) =
     (case cello of None \<Rightarrow> [] | Some cell \<Rightarrow> value_string (cell_v cell))"
  by (simp add: cellWithFloating_def parseCell_def attach_image_def Let_def
        split: option.split)

lemma keepRow_scannedRow:
  "keepRow options (scannedRow worksheet images options fl startCol endCol r) \<longleftrightarrow>
     includeEmptyRows options \<or>
     (\<exists>c \<in> {startCol..endCol}. \<exists>cell. cellAt worksheet r c = Some cell
                                   \<and> value_string (cell_v cell) \<noteq> [])"
  by (auto simp: keepRow_def scannedRow_props(3) list_ex_iff cellWithFloating_value
        split: if_splits option.splits)

lemma row_emitted_iff:
  assumes b: "scanBounds worksheet fl = (startRow, startCol, endRow, endCol)"
      and r: "startRow \<le> r" "r \<le> endRow"
  shows "r + 1 \<in> rd_rowNumber ` set (wd_rows (parseWorksheet worksheet sheetName images options fl))
         \<longleftrightarrow> keepRow options (scannedRow worksheet images options fl startCol endCol r)"
    and "keepRow options (scannedRow worksheet images options fl startCol endCol r) \<Longrightarrow>
         scannedRow worksheet images options fl startCol endCol r
           \<in> set (wd_rows (parseWorksheet worksheet sheetName images options fl))"
proof -
  have rows: "set (wd_rows (parseWorksheet worksheet sheetName images options fl)) =
          {rd \<in> scannedRow worksheet images options fl startCol endCol ` {startRow..endRow}.
             keepRow options rd}"
    using b by (auto simp: parseWorksheet_scan scannedRows_def)
  show "keepRow options (scannedRow worksheet images options fl startCol endCol r) \<Longrightarrow>
         scannedRow worksheet images options fl startCol endCol r
           \<in> set (wd_rows (parseWorksheet worksheet sheetName images options fl))"
    using r by (simp add: rows)
  show "r + 1 \<in> rd_rowNumber ` set (wd_rows (parseWorksheet worksheet sheetName images options fl))
         \<longleftrightarrow> keepRow options (scannedRow worksheet images options fl startCol endCol r)"
  proof
    assume "r + 1 \<in> rd_rowNumber ` set (wd_rows (parseWorksheet worksheet sheetName images options fl))"
    then obtain r' where "keepRow options (scannedRow worksheet images options fl startCol endCol r')"
        "rd_rowNumber (scannedRow worksheet images options fl startCol endCol r') = r + 1"
      by (auto simp: rows)
    then show "keepRow options (scannedRow worksheet images options fl startCol endCol r)"
      by (simp add: scannedRow_props(1))
  next
    assume "keepRow options (scannedRow worksheet images options fl startCol endCol r)"
    with r have "scannedRow worksheet images options fl startCol endCol r
           \<in> set (wd_rows (parseWorksheet worksheet sheetName images options fl))"
      by (simp add: rows)
    then have "rd_rowNumber (scannedRow worksheet images options fl startCol endCol r)
           \<in> rd_rowNumber ` set (wd_rows (parseWorksheet worksheet sheetName images options fl))"
      by (rule imageI)
    then show "r + 1 \<in> rd_rowNumber ` set (wd_rows (parseWorksheet worksheet sheetName images options fl))"
      by (simp add: scannedRow_props(1))
  qed
qed

lemma anchor_in_bounds:
  assumes bind: "map_of fl (encode_cell r c) = Some ids"
      and pos: "0 \<le> r" "0 \<le> c"
      and b: "scanBounds worksheet fl = (startRow, startCol, endRow, endCol)"
  shows "startRow \<le> r \<and> r \<le> endRow \<and> startCol \<le> c \<and> c \<le> endCol"
proof -
  obtain sr sc er ec where d: "declaredRange worksheet = ((sr, sc), (er, ec))"
    by (metis surj_pair)
  have k: "encode_cell r c \<in> set (map fst fl)"
    using map_of_SomeD [OF bind] by force
  have dc: "decode_cell (encode_cell r c) = (r, c)"
    using pos by (simp add: decode_encode_cell)
  have rr: "r \<in> (fst \<circ> decode_cell) ` set (map fst fl)"
    using k dc by force
  have cc: "c \<in> (snd \<circ> decode_cell) ` set (map fst fl)"
    using k dc by force
  have e: "(startRow, startCol, endRow, endCol) =
     (Min (insert sr ((fst \<circ> decode_cell) ` set (map fst fl))),
      Min (insert sc ((snd \<circ> decode_cell) ` set (map fst fl))),
      Max (insert er ((fst \<circ> decode_cell) ` set (map fst fl))),
      Max (insert ec ((snd \<circ> decode_cell) ` set (map fst fl))))"
    using b by (simp add: scanBounds_def d expandBounds_exact)
  from e rr cc show ?thesis
    by (auto intro!: Min_le Max_ge)
qed

lemma anchor_row_counted:
  assumes bind: "map_of fl (encode_cell r c) = Some ids" "fid \<in> set ids"
      and pos: "0 \<le> r" "0 \<le> c"
  shows "1 \<le> wd_totalImages (parseWorksheet worksheet sheetName images options fl)
       \<and> 1 \<le> wd_rowsWithImages (parseWorksheet worksheet sheetName images options fl)"
proof -
  obtain startRow startCol endRow endCol
    where b: "scanBounds worksheet fl = (startRow, startCol, endRow, endCol)"
    by (metis prod_cases4)
  note inb = anchor_in_bounds [OF bind(1) pos b]
  let ?row = "scannedRow worksheet images options fl startCol endCol r"
  have fa: "floatingAt fl r c = ids"
    using bind(1) by (simp add: floatingAt_def)
  have mem: "fid \<in> (\<Union>c'\<in>{startCol..endCol}. set (floatingAt fl r c'))"
    using inb fa bind(2) by auto
  have "finite (\<Union>c'\<in>{startCol..endCol}. set (floatingAt fl r c'))" by simp
  with mem have "0 < card (\<Union>c'\<in>{startCol..endCol}. set (floatingAt fl r c'))"
    by (metis card_gt_0_iff empty_iff)
  then have c1: "1 \<le> rd_imageCount ?row"
    unfolding scannedRow_props(2) by simp
  have el: "?row \<in> set (scannedRows worksheet images options fl)"
    using inb by (simp add: scannedRows_def b)
  then have "rd_imageCount ?row \<in> set (map rd_imageCount (scannedRows worksheet images options fl))"
    by simp
  then have "rd_imageCount ?row \<le> sum_list (map rd_imageCount (scannedRows worksheet images options fl))"
    by (rule member_le_sum_list) simp
  with c1 have t: "1 \<le> wd_totalImages (parseWorksheet worksheet sheetName images options fl)"
    by (simp add: parseWorksheet_scan(2))
  from el c1 have "?row \<in> set (filter (\<lambda>rd. 0 < rd_imageCount rd)
                     (scannedRows worksheet images options fl))"
    by simp
  then have "0 < length (filter (\<lambda>rd. 0 < rd_imageCount rd)
                     (scannedRows worksheet images options fl))"
    by (metis length_pos_if_in_set)
  then have w: "1 \<le> wd_rowsWithImages (parseWorksheet worksheet sheetName images options fl)"
    unfolding parseWorksheet_scan(3) by linarith
  from t w show ?thesis by simp
qed

text \<open>
  C1, as the code has it. The scan range of a sheet is the smallest range that holds the
  declared range and the cell of every key of the sheet's floating-image table, so the
  anchor cell of a floating image lies in it. The row of the anchor is emitted exactly
  when the row filter lets it through: when \<^verbatim>\<open>includeEmptyRows\<close> is set or a cell of that
  row within the scanned columns has a non-empty value. When it is emitted its number is
  the anchor row plus one, its \<^verbatim>\<open>imageCount\<close> is at least 1, and each image id anchored
  there is bound to a cell of the row that is listed in \<^verbatim>\<open>imageCells\<close>. Emitted or not,
  the row is scanned and counted: \<^verbatim>\<open>totalImages\<close> and \<^verbatim>\<open>rowsWithImages\<close> are at least 1.
\<close>

theorem anchor_row_emitted:
  assumes bind: "map_of fl (encode_cell r c) = Some ids" "fid \<in> set ids"
      and pos: "0 \<le> r" "0 \<le> c"
      and b: "scanBounds worksheet fl = (startRow, startCol, endRow, endCol)"
      and d: "declaredRange worksheet = ((sr, sc), (er, ec))"
  shows "startRow = Min (insert sr ((fst \<circ> decode_cell) ` fst ` set fl))
       \<and> startCol = Min (insert sc ((snd \<circ> decode_cell) ` fst ` set fl))
       \<and> endRow = Max (insert er ((fst \<circ> decode_cell) ` fst ` set fl))
       \<and> endCol = Max (insert ec ((snd \<circ> decode_cell) ` fst ` set fl))
       \<and> startRow \<le> r \<and> r \<le> endRow \<and> startCol \<le> c \<and> c \<le> endCol
       \<and> ((r + 1 \<in> rd_rowNumber ` set (wd_rows (parseWorksheet worksheet sheetName images options fl)))
            \<longleftrightarrow> (includeEmptyRows options \<or>
                 (\<exists>c' \<in> {startCol..endCol}. \<exists>cell. cellAt worksheet r c' = Some cell
                                                   \<and> value_string (cell_v cell) \<noteq> [])))
       \<and> (\<forall>row \<in> set (wd_rows (parseWorksheet worksheet sheetName images options fl)).
             rd_rowNumber row = r + 1 \<longrightarrow>
               1 \<le> rd_imageCount row
               \<and> (\<exists>c' \<in> {startCol..endCol}. fid \<in> set (floatingAt fl r c')
                      \<and> encode_cell r c' \<in> set (rd_imageCells row)))
       \<and> 1 \<le> wd_totalImages (parseWorksheet worksheet sheetName images options fl)
       \<and> 1 \<le> wd_rowsWithImages (parseWorksheet worksheet sheetName images options fl)"
proof -
  have e: "(startRow, startCol, endRow, endCol) =
     (Min (insert sr ((fst \<circ> decode_cell) ` set (map fst fl))),
      Min (insert sc ((snd \<circ> decode_cell) ` set (map fst fl))),
      Max (insert er ((fst \<circ> decode_cell) ` set (map fst fl))),
      Max (insert ec ((snd \<circ> decode_cell) ` set (map fst fl))))"
    using b by (simp add: scanBounds_def d expandBounds_exact)
  note inb = anchor_in_bounds [OF bind(1) pos b]
  have emit: "(r + 1 \<in> rd_rowNumber ` set (wd_rows (parseWorksheet worksheet sheetName images options fl)))
            \<longleftrightarrow> (includeEmptyRows options \<or>
                 (\<exists>c' \<in> {startCol..endCol}. \<exists>cell. cellAt worksheet r c' = Some cell
                                                   \<and> value_string (cell_v cell) \<noteq> []))"
    using row_emitted_iff(1) [OF b, of r sheetName images options] inb
    by (simp add: keepRow_scannedRow)
  have fa: "floatingAt fl r c = ids"
    using bind(1) by (simp add: floatingAt_def)
  have mem: "fid \<in> (\<Union>c'\<in>{startCol..endCol}. set (floatingAt fl r c'))"
    using inb fa bind(2) by auto
  have bound: "\<forall>row \<in> set (wd_rows (parseWorksheet worksheet sheetName images options fl)).
             rd_rowNumber row = r + 1 \<longrightarrow>
               1 \<le> rd_imageCount row
               \<and> (\<exists>c' \<in> {startCol..endCol}. fid \<in> set (floatingAt fl r c')
                      \<and> encode_cell r c' \<in> set (rd_imageCells row))"
  proof (intro ballI impI)
    fix row
    assume row: "row \<in> set (wd_rows (parseWorksheet worksheet sheetName images options fl))"
       and n: "rd_rowNumber row = r + 1"
    from row b obtain r' where r': "row = scannedRow worksheet images options fl startCol endCol r'"
      by (auto simp: parseWorksheet_scan scannedRows_def)
    with n have "r' = r" by (simp add: scannedRow_props(1))
    with r' have rw: "row = scannedRow worksheet images options fl startCol endCol r" by simp
    have "finite (\<Union>c'\<in>{startCol..endCol}. set (floatingAt fl r c'))" by simp
    with mem have "0 < card (\<Union>c'\<in>{startCol..endCol}. set (floatingAt fl r c'))"
      by (metis card_gt_0_iff empty_iff)
    then have c1: "1 \<le> rd_imageCount row"
      unfolding rw scannedRow_props(2) by simp
    from scannedRow_props(4) [where startCol = startCol and endCol = endCol and fl = fl and r = r
           and worksheet = worksheet and images = images and options = options] mem
    have "\<exists>c' \<in> {startCol..endCol}. fid \<in> set (floatingAt fl r c')
                      \<and> encode_cell r c' \<in> set (rd_imageCells row)"
      unfolding rw by blast
    with c1 show "1 \<le> rd_imageCount row
               \<and> (\<exists>c' \<in> {startCol..endCol}. fid \<in> set (floatingAt fl r c')
                      \<and> encode_cell r c' \<in> set (rd_imageCells row))"
      by simp
  qed
  note counted = anchor_row_counted [OF bind pos, of worksheet sheetName images options]
  from e inb emit bound counted show ?thesis by simp
qed

lemma demo_bounds:
  "scanBounds demo_sheet demo_floating = (0, 0, 100, 1)"
  "declaredRange demo_sheet = ((0, 0), (50, 1))"
  by (simp_all add: scanBounds_def declaredRange_def demo_sheet_def demo_floating_def str_eval)

lemma demo_anchor_binding:
  "map_of demo_floating (encode_cell 100 0) = Some [''img1'']"
  by (simp add: demo_floating_def str_eval)

theorem anchor_row_emitted_witness:
  "map_of demo_floating (encode_cell 100 0) = Some [''img1'']
   \<and> ''img1'' \<in> set [''img1'']
   \<and> (0::int) \<le> 100 \<and> (0::int) \<le> 0
   \<and> scanBounds demo_sheet demo_floating = (0, 0, 100, 1)
   \<and> declaredRange demo_sheet = ((0, 0), (50, 1))
   \<and> includeEmptyRows (default_options\<lparr>includeEmptyRows := True\<rparr>)
   \<and> 100 + 1 \<in> rd_rowNumber ` set (wd_rows (parseWorksheet demo_sheet ''Sheet1'' demo_images
                                              (default_options\<lparr>includeEmptyRows := True\<rparr>)
                                              demo_floating))"
proof -
  have m: "''img1'' \<in> set [''img1'']" by simp
  have p: "(0::int) \<le> 100" "(0::int) \<le> 0" by simp_all
  have o: "includeEmptyRows (default_options\<lparr>includeEmptyRows := True\<rparr>)" by simp
  note t = anchor_row_emitted [OF demo_anchor_binding m p demo_bounds,
      where sheetName = "''Sheet1''" and images = demo_images
        and options = "default_options\<lparr>includeEmptyRows := True\<rparr>"]
  have e: "100 + 1 \<in> rd_rowNumber ` set (wd_rows (parseWorksheet demo_sheet ''Sheet1'' demo_images
                                              (default_options\<lparr>includeEmptyRows := True\<rparr>)
                                              demo_floating))"
    using t [THEN conjunct2, THEN conjunct2, THEN conjunct2, THEN conjunct2, THEN conjunct2,
             THEN conjunct2, THEN conjunct2, THEN conjunct2, THEN conjunct1] o
    by (simp only: simp_thms)
  show ?thesis
    by (rule demo_anchor_binding m p demo_bounds o e conjI)+
qed

text \<open>
  C1 as stated fails: with the default options, the sheet declares \<^verbatim>\<open>A1:B51\<close>, a floating
  image is anchored at row 100 (cell \<^verbatim>\<open>A101\<close>), no cell of that row holds a value, and
  no emitted row has the number 101.
\<close>

theorem anchor_row_counterexample:
  "map_of demo_floating (encode_cell 100 0) = Some [''img1'']
   \<and> declaredRange demo_sheet = ((0, 0), (50, 1))
   \<and> 100 + 1 \<notin> rd_rowNumber ` set (wd_rows (parseWorksheet demo_sheet ''Sheet1'' demo_images
                                              default_options demo_floating))"
proof -
  have c: "cellAt demo_sheet 100 0 = None" "cellAt demo_sheet 100 1 = None"
    by (simp_all add: cellAt_def demo_sheet_def str_eval)
  have s: "{0..1::int} = {0, 1}" by auto
  have k: "\<not> keepRow default_options
             (scannedRow demo_sheet demo_images default_options demo_floating 0 1 100)"
    by (simp add: keepRow_scannedRow s c default_options_def)
  have n: "100 + 1 \<notin> rd_rowNumber ` set (wd_rows (parseWorksheet demo_sheet ''Sheet1'' demo_images
                                              default_options demo_floating))"
    using row_emitted_iff(1) [OF demo_bounds(1), of 100 "''Sheet1''" demo_images default_options] k
    by simp
  show ?thesis
    by (rule demo_anchor_binding demo_bounds n conjI)+
qed


end
